theory Spec2Isabelle
  imports Complex_Main
begin

section \<open>Values, failures and the two collaborators\<close>

text \<open>
  The plugin is an adapter between the accessory platform (characteristics, logger) and
  the device client (\<open>miio\<close>). Both collaborators are external, so the model records
  what the adapter asks of them: the calls issued to the device client (\<open>sent\<close>), the
  log lines (\<open>logged\<close>), the \<open>updateValue\<close> calls on characteristics (\<open>updates\<close>) and the
  timers armed (\<open>timers\<close>). What the device client answers to an awaited call is an
  argument of the operation that awaits it (a \<open>reply\<close>: \<open>Inl\<close> a rejection, \<open>Inr\<close> the
  resolved value). An operation that takes a reply is the whole call, run from its start
  to its return with the reply arriving and nothing else in between. \<open>setHue\<close> and
  \<open>setSaturation\<close> write the shadow state on both sides of their \<open>await\<close>; they are
  given in two halves (\<open>_start\<close>: up to the \<open>await\<close>, \<open>_resume\<close>: from it), so that other
  operations can run while the command is pending, and the whole call is the two halves
  in a row.

  A \<open>CharacteristicValue\<close> is a JavaScript primitive. Numbers are the integers that the
  platform delivers for hue, saturation, brightness and colour temperature.
\<close>

datatype CharacteristicValue = CBool bool | CNum int | CStr string | CNull

fun truthy :: "CharacteristicValue \<Rightarrow> bool" where
  "truthy (CBool b) = b"
| "truthy (CNum n) = (n \<noteq> 0)"
| "truthy (CStr s) = (s \<noteq> [])"
| "truthy CNull = False"

datatype HAPStatus = SERVICE_COMMUNICATION_FAILURE

datatype jserror = DeviceError string | TypeError | HapStatusError HAPStatus

type_synonym 'a reply = "jserror + 'a"

text \<open>The device object, seen through its capability test \<open>matches(...tags)\<close>.\<close>

datatype miio = Device (matches: "string list \<Rightarrow> bool")

text \<open>
  A colour value of the device library, seen through the getters the adapter reads:
  \<open>color.model\<close>, \<open>color.mired.value\<close> (also reached as \<open>color.temperature.mired.value\<close>),
  \<open>color.hsv.hue\<close>, \<open>color.hsv.saturation\<close>, \<open>color.hsl.hue\<close>, \<open>color.hsl.saturation\<close>.
\<close>

record color =
  model :: string
  mired_value :: int
  hsv_hue :: int
  hsv_saturation :: int
  hsl_hue :: int
  hsl_saturation :: int

datatype arg = AStr string | ANum int

datatype devcall =
    SetPower CharacteristicValue
  | SetBrightness CharacteristicValue
  | SetColor string
  | GetColor
  | GetPower
  | GetBrightness
  | Call string "arg list option"
  | LoadProperties "string list"
  | ChangeMode string

datatype logarg = LStr string | LVal CharacteristicValue | LDevice miio

datatype logentry = Info "logarg list" | Error jserror

datatype characteristic =
  Power | ColorTmp | Brightness | Hue | Sat | Moonlight | MoonlightBrightness | NightModeSwitchOn

datatype listener =
    OnColorChangedTemperature
  | OnColorChangedFull
  | OnBrightnessChanged
  | OnPowerChanged
  | OnModeChanged
  | OnUpdateMoonlightBrightness

datatype timer_task = NightModeSwitchOn_updateValue CharacteristicValue

record effects =
  connection :: "miio option"
  debugLogging :: bool
  sent :: "devcall list"
  logged :: "logentry list"

definition log_info :: "logarg list \<Rightarrow> 'a effects_scheme \<Rightarrow> 'a effects_scheme" where
  "log_info args s = s\<lparr>logged := logged s @ [Info args]\<rparr>"

definition log_error :: "jserror \<Rightarrow> 'a effects_scheme \<Rightarrow> 'a effects_scheme" where
  "log_error e s = s\<lparr>logged := logged s @ [Error e]\<rparr>"

text \<open>\<open>if (this.debugLogging) { this.platform.log.info(...) }\<close>\<close>

definition debug_info :: "logarg list \<Rightarrow> 'a effects_scheme \<Rightarrow> 'a effects_scheme" where
  "debug_info args s = (if debugLogging s then log_info args s else s)"

text \<open>
  \<open>await this.connection.m(...)\<close>: before the device promise has resolved
  \<open>this.connection\<close> is undefined and the member access throws a \<open>TypeError\<close>; otherwise
  the call is issued and the device client's reply \<open>r\<close> is what the \<open>await\<close> yields.
\<close>

definition request ::
  "devcall \<Rightarrow> 'r reply \<Rightarrow> 'a effects_scheme \<Rightarrow> 'r reply \<times> 'a effects_scheme" where
  "request c r s =
     (case connection s of
        None \<Rightarrow> (Inl TypeError, s)
      | Some d \<Rightarrow> (r, s\<lparr>sent := sent s @ [c]\<rparr>))"

section \<open>Numbers in template literals\<close>

definition digit :: "nat \<Rightarrow> char" where
  "digit d = ''0123456789'' ! d"

fun show_nat :: "nat \<Rightarrow> string" where
  "show_nat n = (if n < 10 then [digit n] else show_nat (n div 10) @ [digit (n mod 10)])"

declare show_nat.simps [simp del]

text \<open>\<open>`${n}`\<close> for an integer \<open>n\<close> (decimal digits, a leading minus sign below zero).\<close>

definition Number_toString :: "int \<Rightarrow> string" where
  "Number_toString n = (if n < 0 then CHR ''-'' # show_nat (nat (- n)) else show_nat (nat n))"

text \<open>\<open>Math.round\<close>: the nearest integer, a tie going up.\<close>

definition Math_round :: "rat \<Rightarrow> int" where
  "Math_round x = \<lfloor>x + 1 / 2\<rfloor>"

text \<open>
  \<open>`${Math.round(1000000 / (value as number))}K`\<close>. A division by zero yields
  \<open>Infinity\<close>, which \<open>Math.round\<close> keeps.
\<close>

definition kelvin_of :: "int \<Rightarrow> string" where
  "kelvin_of value =
     (if value = 0 then ''Infinity''
      else Number_toString (Math_round (1000000 / of_int value))) @ ''K''"

text \<open>\<open>`hsl(${this.state.hue}, ${this.state.saturation}%, 100%)`\<close>\<close>

definition hsl_of :: "int \<Rightarrow> int \<Rightarrow> string" where
  "hsl_of h s = ''hsl('' @ Number_toString h @ '', '' @ Number_toString s @ ''%, 100%)''"

section \<open>The accessory with a night-mode switch (\<open>src/platformAccessory.ts\<close>)\<close>

record LightCharacteristics =
  power :: CharacteristicValue
  colorTmp :: "CharacteristicValue option"
  brightness :: "CharacteristicValue option"
  hue :: "CharacteristicValue option"
  sat :: "CharacteristicValue option"
  moonlight :: "CharacteristicValue option"
  moonlightBrightness :: "CharacteristicValue option"

text \<open>
  A characteristic is modelled by its cached \<open>value\<close>; an optional field of
  \<open>LightCharacteristics\<close> that is unset is \<open>None\<close>. \<open>state_hue\<close> and \<open>state_saturation\<close> are
  \<open>this.state.hue\<close> and \<open>this.state.saturation\<close>. The adapter changes a characteristic's
  value only through \<open>updateValue\<close>; the platform also stores the value of a write whose
  set handler returned normally, so the cached values of a state are not tied to its
  shadow values and the properties below hold for every state.
\<close>

record shadow = effects +
  state_hue :: int
  state_saturation :: int
  updates :: "(characteristic \<times> CharacteristicValue) list"
  listeners :: "listener list"

record light_chars = shadow +
  lightCharacteristics :: LightCharacteristics

record light = light_chars +
  nightModeSwitchOn :: CharacteristicValue
  timers :: "(nat \<times> timer_task) list"

definition configs_minTemp :: int where
  "configs_minTemp = 154"

definition configs_maxTemp :: int where
  "configs_maxTemp = 370"

subsection \<open>\<open>updateValue\<close> on each characteristic\<close>

definition power_updateValue ::
  "CharacteristicValue \<Rightarrow> 'a light_chars_scheme \<Rightarrow> 'a light_chars_scheme" where
  "power_updateValue v s =
     s\<lparr>lightCharacteristics := (lightCharacteristics s)\<lparr>power := v\<rparr>,
       updates := updates s @ [(Power, v)]\<rparr>"

definition colorTmp_updateValue ::
  "CharacteristicValue \<Rightarrow> 'a light_chars_scheme \<Rightarrow> 'a light_chars_scheme" where
  "colorTmp_updateValue v s =
     s\<lparr>lightCharacteristics := (lightCharacteristics s)\<lparr>colorTmp := Some v\<rparr>,
       updates := updates s @ [(ColorTmp, v)]\<rparr>"

definition brightness_updateValue ::
  "CharacteristicValue \<Rightarrow> 'a light_chars_scheme \<Rightarrow> 'a light_chars_scheme" where
  "brightness_updateValue v s =
     s\<lparr>lightCharacteristics := (lightCharacteristics s)\<lparr>brightness := Some v\<rparr>,
       updates := updates s @ [(Brightness, v)]\<rparr>"

definition hue_updateValue ::
  "CharacteristicValue \<Rightarrow> 'a light_chars_scheme \<Rightarrow> 'a light_chars_scheme" where
  "hue_updateValue v s =
     s\<lparr>lightCharacteristics := (lightCharacteristics s)\<lparr>hue := Some v\<rparr>,
       updates := updates s @ [(Hue, v)]\<rparr>"

definition sat_updateValue ::
  "CharacteristicValue \<Rightarrow> 'a light_chars_scheme \<Rightarrow> 'a light_chars_scheme" where
  "sat_updateValue v s =
     s\<lparr>lightCharacteristics := (lightCharacteristics s)\<lparr>sat := Some v\<rparr>,
       updates := updates s @ [(Sat, v)]\<rparr>"

definition nightModeSwitchOn_updateValue :: "CharacteristicValue \<Rightarrow> light \<Rightarrow> light" where
  "nightModeSwitchOn_updateValue v s =
     s\<lparr>nightModeSwitchOn := v, updates := updates s @ [(NightModeSwitchOn, v)]\<rparr>"

text \<open>
  \<open>if (this.nightModeSwitchOn.value) { this.nightModeSwitchOn.updateValue(false); }\<close>
\<close>

definition nightMode_off :: "light \<Rightarrow> light" where
  "nightMode_off s =
     (if truthy (nightModeSwitchOn s) then nightModeSwitchOn_updateValue (CBool False) s else s)"

subsection \<open>Setters\<close>

definition setOn :: "CharacteristicValue \<Rightarrow> unit reply \<Rightarrow> light \<Rightarrow> unit reply \<times> light" where
  "setOn value r s =
     (let s1 = debug_info [LStr ''setting power to'', LVal value] s
      in case request (SetPower value) r s1 of
           (Inr _, s2) \<Rightarrow>
             (let s3 = (if \<not> truthy value \<and> truthy (nightModeSwitchOn s2)
                        then nightModeSwitchOn_updateValue (CBool False) s2 else s2)
              in (Inr (), debug_info [LStr ''power set successfully''] s3))
         | (Inl e, s2) \<Rightarrow> (Inr (), log_error e s2))"

definition setBrightness ::
  "CharacteristicValue \<Rightarrow> unit reply \<Rightarrow> light \<Rightarrow> unit reply \<times> light" where
  "setBrightness value r s =
     (let s1 = debug_info [LStr ''setting brightness to'', LVal value] s
      in case request (SetBrightness value) r s1 of
           (Inr _, s2) \<Rightarrow>
             (Inr (), debug_info [LStr ''brightness set successfully''] (nightMode_off s2))
         | (Inl e, s2) \<Rightarrow> (Inr (), log_error e s2))"

definition setColorTemperature :: "int \<Rightarrow> unit reply \<Rightarrow> light \<Rightarrow> unit reply \<times> light" where
  "setColorTemperature value r s =
     (let kelvin = kelvin_of value;
          s1 = debug_info [LStr ''setting color temp:'', LStr ''mired ='', LVal (CNum value),
                           LStr ''kelvin ='', LStr kelvin] s
      in case request (SetColor kelvin) r s1 of
           (Inr _, s2) \<Rightarrow>
             (Inr (), debug_info [LStr ''color temp set successfully''] (nightMode_off s2))
         | (Inl e, s2) \<Rightarrow> (Inr (), log_error e s2))"

text \<open>
  \<open>setHue(value)\<close> up to its \<open>await\<close>. The result is \<open>Some oldHue\<close> when the command has
  been issued and the call is suspended, holding its local \<open>oldHue\<close>; it is \<open>None\<close> when
  the member access on the undefined \<open>this.connection\<close> threw inside the \<open>try\<close> and the
  \<open>catch\<close> has already run.
\<close>

definition setHue_start :: "int \<Rightarrow> light \<Rightarrow> int option \<times> light" where
  "setHue_start value s =
     (let oldHue = state_hue s;
          s1 = debug_info [LStr ''setting hue to'', LVal (CNum value)] (s\<lparr>state_hue := value\<rparr>)
      in case connection s1 of
           Some d \<Rightarrow>
             (Some oldHue,
              s1\<lparr>sent := sent s1 @ [SetColor (hsl_of (state_hue s1) (state_saturation s1))]\<rparr>)
         | None \<Rightarrow> (None, log_error TypeError (s1\<lparr>state_hue := oldHue\<rparr>)))"

text \<open>\<open>setHue\<close> from its \<open>await\<close>, resumed with the reply \<open>r\<close> in the state \<open>s\<close> of that moment.\<close>

definition setHue_resume :: "int \<Rightarrow> unit reply \<Rightarrow> light \<Rightarrow> unit reply \<times> light" where
  "setHue_resume oldHue r s =
     (case r of
        Inr _ \<Rightarrow> (Inr (), debug_info [LStr ''hue set successfully''] (nightMode_off s))
      | Inl e \<Rightarrow> (Inr (), log_error e (s\<lparr>state_hue := oldHue\<rparr>)))"

definition setHue :: "int \<Rightarrow> unit reply \<Rightarrow> light \<Rightarrow> unit reply \<times> light" where
  "setHue value r s =
     (case setHue_start value s of
        (Some oldHue, s1) \<Rightarrow> setHue_resume oldHue r s1
      | (None, s1) \<Rightarrow> (Inr (), s1))"

definition setSaturation_start :: "int \<Rightarrow> light \<Rightarrow> int option \<times> light" where
  "setSaturation_start value s =
     (let oldSat = state_saturation s;
          s1 = debug_info [LStr ''setting saturation to'', LVal (CNum value)]
                 (s\<lparr>state_saturation := value\<rparr>)
      in case connection s1 of
           Some d \<Rightarrow>
             (Some oldSat,
              s1\<lparr>sent := sent s1 @ [SetColor (hsl_of (state_hue s1) (state_saturation s1))]\<rparr>)
         | None \<Rightarrow> (None, log_error TypeError (s1\<lparr>state_saturation := oldSat\<rparr>)))"

definition setSaturation_resume :: "int \<Rightarrow> unit reply \<Rightarrow> light \<Rightarrow> unit reply \<times> light" where
  "setSaturation_resume oldSat r s =
     (case r of
        Inr _ \<Rightarrow> (Inr (), debug_info [LStr ''saturation set successfully''] (nightMode_off s))
      | Inl e \<Rightarrow> (Inr (), log_error e (s\<lparr>state_saturation := oldSat\<rparr>)))"

definition setSaturation :: "int \<Rightarrow> unit reply \<Rightarrow> light \<Rightarrow> unit reply \<times> light" where
  "setSaturation value r s =
     (case setSaturation_start value s of
        (Some oldSat, s1) \<Rightarrow> setSaturation_resume oldSat r s1
      | (None, s1) \<Rightarrow> (Inr (), s1))"

text \<open>
  \<open>updateHueAndSaturation(color)\<close>. The second guard compares \<open>color.hue\<close> (not
  \<open>color.saturation\<close>) with the saturation characteristic's value, as the source does.
\<close>

definition updateHueAndSaturation :: "color \<Rightarrow> 'a light_chars_scheme \<Rightarrow> 'a light_chars_scheme" where
  "updateHueAndSaturation c s =
     (let s1 = (case hue (lightCharacteristics s) of
                  Some cur \<Rightarrow>
                    if CNum (hsv_hue c) \<noteq> cur
                    then hue_updateValue (CNum (hsv_hue c)) (s\<lparr>state_hue := hsv_hue c\<rparr>)
                    else s
                | None \<Rightarrow> s)
      in case sat (lightCharacteristics s1) of
           Some cur \<Rightarrow>
             if CNum (hsv_hue c) \<noteq> cur
             then sat_updateValue (CNum (hsv_saturation c))
                    (s1\<lparr>state_saturation := hsv_saturation c\<rparr>)
             else s1
         | None \<Rightarrow> s1)"

text \<open>
  \<open>setNightMode(value)\<close>. The scene call is awaited outside any \<open>try\<close>, so its rejection
  is the rejection of \<open>setNightMode\<close>. \<open>color_rgb\<close> is the device library's constructor
  \<open>color.rgb\<close>. \<open>this.lightCharacteristics.brightness!\<close> is a member access on
  \<open>undefined\<close> when the field is unset.
\<close>

definition setNightMode ::
  "CharacteristicValue \<Rightarrow> (int \<Rightarrow> int \<Rightarrow> int \<Rightarrow> color) \<Rightarrow> unit reply \<Rightarrow> light
     \<Rightarrow> unit reply \<times> light" where
  "setNightMode value color_rgb r s =
     (if truthy value then
        (case request (Call ''set_scene'' (Some [AStr ''nightlight'', ANum 10])) r s of
           (Inl e, s1) \<Rightarrow> (Inl e, s1)
         | (Inr _, s1) \<Rightarrow>
             (let nightLightColor = color_rgb 255 152 0;
                  s2 = updateHueAndSaturation nightLightColor s1
              in case brightness (lightCharacteristics s2) of
                   None \<Rightarrow> (Inl TypeError, s2)
                 | Some _ \<Rightarrow>
                     (Inr (), power_updateValue (CBool True) (brightness_updateValue (CNum 1) s2))))
      else (Inr (), s\<lparr>timers := timers s @ [(0, NightModeSwitchOn_updateValue (CBool True))]\<rparr>))"


subsection \<open>Colour flow\<close>

record props =
  flowing :: CharacteristicValue

definition colors :: "int list" where
  "colors =
     [255 * 65536 + 36 * 256 + 0,
      232 * 65536 + 29 * 256 + 29,
      232 * 65536 + 183 * 256 + 29,
      227 * 65536 + 232 * 256 + 29,
      29 * 65536 + 232 * 256 + 64,
      29 * 65536 + 221 * 256 + 232,
      43 * 65536 + 29 * 256 + 232,
      221 * 65536 + 0 * 256 + 243]"

text \<open>\<open>Array.prototype.join\<close> on strings.\<close>

fun join :: "string \<Rightarrow> string list \<Rightarrow> string" where
  "join sep [] = []"
| "join sep [x] = x"
| "join sep (x # y # ys) = x @ sep @ join sep (y # ys)"

definition tuples :: "string list" where
  "tuples = map (\<lambda>color. ''2250,1,'' @ Number_toString color @ '',100'') colors"

text \<open>
  \<open>startColorFlow()\<close>, the same text in \<open>src/platformAccessory.ts\<close> and in the moonlight
  revision. \<open>r1\<close> answers \<open>loadProperties\<close>, \<open>r2\<close> answers the \<open>call\<close> that follows.
\<close>

definition startColorFlow ::
  "props reply \<Rightarrow> unit reply \<Rightarrow> 'a effects_scheme \<Rightarrow> unit reply \<times> 'a effects_scheme" where
  "startColorFlow r1 r2 s =
     (case request (LoadProperties [''flowing'']) r1 s of
        (Inl e, s1) \<Rightarrow> (Inr (), log_error e s1)
      | (Inr p, s1) \<Rightarrow>
          if flowing p = CStr ''1'' then
            (case request (Call ''stop_cf'' None) r2 s1 of
               (Inl e, s2) \<Rightarrow> (Inr (), log_error e s2)
             | (Inr _, s2) \<Rightarrow> (Inr (), s2))
          else
            (case request
                    (Call ''set_scene'' (Some [AStr ''cf'', ANum 0, ANum 0, AStr (join '', '' tuples)]))
                    r2 s1 of
               (Inl e, s2) \<Rightarrow> (Inr (), log_error e s2)
             | (Inr _, s2) \<Rightarrow> (Inr (), s2)))"

subsection \<open>Construction, connection and device events\<close>

text \<open>
  The synchronous part of the constructor: \<open>on\<close> and \<open>nm\<close> are the values the platform
  holds for the light's \<open>On\<close> characteristic and for the night-mode switch.
\<close>

definition Light :: "bool \<Rightarrow> CharacteristicValue \<Rightarrow> CharacteristicValue \<Rightarrow> light" where
  "Light dbg on nm =
     \<lparr>connection = None, debugLogging = dbg, sent = [], logged = [],
      state_hue = 0, state_saturation = 0, updates = [], listeners = [],
      lightCharacteristics =
        \<lparr>power = on, colorTmp = None, brightness = None, hue = None, sat = None,
         moonlight = None, moonlightBrightness = None\<rparr>,
      nightModeSwitchOn = nm, timers = []\<rparr>"

text \<open>
  The \<open>then\<close> callback of \<open>miio.device(...)\<close>. \<open>service c\<close> is the value the platform's
  Lightbulb service holds for characteristic \<open>c\<close>. \<open>setProps\<close> bounds the colour-temperature
  characteristic by \<open>configs.minTemp\<close> and \<open>configs.maxTemp\<close>; every value this revision
  pushes to it lies within these bounds already.
\<close>

definition connection_opened ::
  "miio \<Rightarrow> (characteristic \<Rightarrow> CharacteristicValue) \<Rightarrow> light \<Rightarrow> light" where
  "connection_opened device service s =
     (let s1 = log_info [LStr ''opened connection to device'', LDevice device]
                 (s\<lparr>connection := Some device\<rparr>);
          s2 = (if matches device [''cap:colorable'', ''cap:color:temperature'']
                then s1\<lparr>lightCharacteristics :=
                          (lightCharacteristics s1)\<lparr>colorTmp := Some (service ColorTmp)\<rparr>,
                        listeners := listeners s1 @ [OnColorChangedTemperature]\<rparr>
                else s1);
          s3 = (if matches device [''cap:colorable'', ''cap:color:full'']
                then s2\<lparr>lightCharacteristics :=
                          (lightCharacteristics s2)\<lparr>hue := Some (service Hue),
                                                     sat := Some (service Sat)\<rparr>,
                        listeners := listeners s2 @ [OnColorChangedFull]\<rparr>
                else s2);
          s4 = (if matches device [''cap:dimmable'', ''cap:brightness'']
                then s3\<lparr>lightCharacteristics :=
                          (lightCharacteristics s3)\<lparr>brightness := Some (service Brightness)\<rparr>,
                        listeners := listeners s3 @ [OnBrightnessChanged]\<rparr>
                else s3)
      in s4\<lparr>listeners := listeners s4 @ [OnPowerChanged]\<rparr>)"

text \<open>The \<open>catch\<close> callback of \<open>miio.device(...)\<close>.\<close>

definition connect_failed :: "jserror \<Rightarrow> light \<Rightarrow> light" where
  "connect_failed e s = log_error e s"

definition on_colorChanged_temperature :: "color \<Rightarrow> light \<Rightarrow> light" where
  "on_colorChanged_temperature c s =
     (if model c \<noteq> ''temperature'' \<and> model c \<noteq> ''mired'' then s
      else
        (let tmp = min (max (mired_value c) configs_minTemp) configs_maxTemp
         in case colorTmp (lightCharacteristics s) of
              Some cur \<Rightarrow>
                if CNum tmp \<noteq> cur
                then updateHueAndSaturation c (colorTmp_updateValue (CNum tmp) s)
                else s
            | None \<Rightarrow> s))"

definition on_colorChanged_full :: "color \<Rightarrow> light \<Rightarrow> light" where
  "on_colorChanged_full c s =
     (if model c = ''temperature'' \<or> model c = ''mired'' then s
      else updateHueAndSaturation c s)"

definition on_brightnessChanged :: "CharacteristicValue \<Rightarrow> light \<Rightarrow> light" where
  "on_brightnessChanged bright s =
     (case brightness (lightCharacteristics s) of
        Some cur \<Rightarrow> if bright \<noteq> cur then brightness_updateValue bright s else s
      | None \<Rightarrow> s)"

definition on_powerChanged :: "CharacteristicValue \<Rightarrow> light \<Rightarrow> light" where
  "on_powerChanged p s =
     (if p \<noteq> power (lightCharacteristics s) then power_updateValue p s else s)"

datatype event =
    ColorChanged color
  | BrightnessChanged CharacteristicValue
  | PowerChanged CharacteristicValue

fun run_listener :: "listener \<Rightarrow> event \<Rightarrow> light \<Rightarrow> light" where
  "run_listener OnColorChangedTemperature (ColorChanged c) s = on_colorChanged_temperature c s"
| "run_listener OnColorChangedFull (ColorChanged c) s = on_colorChanged_full c s"
| "run_listener OnBrightnessChanged (BrightnessChanged b) s = on_brightnessChanged b s"
| "run_listener OnPowerChanged (PowerChanged p) s = on_powerChanged p s"
| "run_listener l e s = s"

text \<open>The device client emits an event: the registered listeners run in their order.\<close>

definition emit :: "event \<Rightarrow> light \<Rightarrow> light" where
  "emit e s = fold (\<lambda>l. run_listener l e) (listeners s) s"

section \<open>Earlier revisions of the accessory\<close>

text \<open>
  Three earlier revisions of the class \<open>Light\<close> are part of the sources: the revision that
  answers the platform's reads by querying the device (suffix \<open>_pull\<close>), the first
  revision that listens to device events (suffix \<open>_event\<close>) and the revision with a
  moonlight service (suffix \<open>_moon\<close>). \<open>setOn\<close>, \<open>setBrightness\<close> and
  \<open>setColorTemperature\<close> have the same text in the three (suffix \<open>_plain\<close>); \<open>setHue\<close> and
  \<open>setSaturation\<close> have the same text in the event and the moonlight revision (suffix
  \<open>_revert\<close>), again in two halves around the \<open>await\<close>.
\<close>

definition setOn_plain ::
  "CharacteristicValue \<Rightarrow> unit reply \<Rightarrow> 'a effects_scheme \<Rightarrow> unit reply \<times> 'a effects_scheme" where
  "setOn_plain value r s =
     (let s1 = debug_info [LStr ''setting power to'', LVal value] s
      in case request (SetPower value) r s1 of
           (Inr _, s2) \<Rightarrow> (Inr (), debug_info [LStr ''power set successfully''] s2)
         | (Inl e, s2) \<Rightarrow> (Inr (), log_error e s2))"

definition setBrightness_plain ::
  "CharacteristicValue \<Rightarrow> unit reply \<Rightarrow> 'a effects_scheme \<Rightarrow> unit reply \<times> 'a effects_scheme" where
  "setBrightness_plain value r s =
     (let s1 = debug_info [LStr ''setting brightness to'', LVal value] s
      in case request (SetBrightness value) r s1 of
           (Inr _, s2) \<Rightarrow> (Inr (), debug_info [LStr ''brightness set successfully''] s2)
         | (Inl e, s2) \<Rightarrow> (Inr (), log_error e s2))"

definition setColorTemperature_plain ::
  "int \<Rightarrow> unit reply \<Rightarrow> 'a effects_scheme \<Rightarrow> unit reply \<times> 'a effects_scheme" where
  "setColorTemperature_plain value r s =
     (let kelvin = kelvin_of value;
          s1 = debug_info [LStr ''setting color temp:'', LStr ''mired ='', LVal (CNum value),
                           LStr ''kelvin ='', LStr kelvin] s
      in case request (SetColor kelvin) r s1 of
           (Inr _, s2) \<Rightarrow> (Inr (), debug_info [LStr ''color temp set successfully''] s2)
         | (Inl e, s2) \<Rightarrow> (Inr (), log_error e s2))"

definition setHue_revert_start :: "int \<Rightarrow> 'a shadow_scheme \<Rightarrow> int option \<times> 'a shadow_scheme" where
  "setHue_revert_start value s =
     (let oldHue = state_hue s;
          s1 = debug_info [LStr ''setting hue to'', LVal (CNum value)] (s\<lparr>state_hue := value\<rparr>)
      in case connection s1 of
           Some d \<Rightarrow>
             (Some oldHue,
              s1\<lparr>sent := sent s1 @ [SetColor (hsl_of (state_hue s1) (state_saturation s1))]\<rparr>)
         | None \<Rightarrow> (None, log_error TypeError (s1\<lparr>state_hue := oldHue\<rparr>)))"

definition setHue_revert_resume ::
  "int \<Rightarrow> unit reply \<Rightarrow> 'a shadow_scheme \<Rightarrow> unit reply \<times> 'a shadow_scheme" where
  "setHue_revert_resume oldHue r s =
     (case r of
        Inr _ \<Rightarrow> (Inr (), debug_info [LStr ''hue set successfully''] s)
      | Inl e \<Rightarrow> (Inr (), log_error e (s\<lparr>state_hue := oldHue\<rparr>)))"

definition setHue_revert ::
  "int \<Rightarrow> unit reply \<Rightarrow> 'a shadow_scheme \<Rightarrow> unit reply \<times> 'a shadow_scheme" where
  "setHue_revert value r s =
     (case setHue_revert_start value s of
        (Some oldHue, s1) \<Rightarrow> setHue_revert_resume oldHue r s1
      | (None, s1) \<Rightarrow> (Inr (), s1))"

definition setSaturation_revert_start ::
  "int \<Rightarrow> 'a shadow_scheme \<Rightarrow> int option \<times> 'a shadow_scheme" where
  "setSaturation_revert_start value s =
     (let oldSat = state_saturation s;
          s1 = debug_info [LStr ''setting saturation to'', LVal (CNum value)]
                 (s\<lparr>state_saturation := value\<rparr>)
      in case connection s1 of
           Some d \<Rightarrow>
             (Some oldSat,
              s1\<lparr>sent := sent s1 @ [SetColor (hsl_of (state_hue s1) (state_saturation s1))]\<rparr>)
         | None \<Rightarrow> (None, log_error TypeError (s1\<lparr>state_saturation := oldSat\<rparr>)))"

definition setSaturation_revert_resume ::
  "int \<Rightarrow> unit reply \<Rightarrow> 'a shadow_scheme \<Rightarrow> unit reply \<times> 'a shadow_scheme" where
  "setSaturation_revert_resume oldSat r s =
     (case r of
        Inr _ \<Rightarrow> (Inr (), debug_info [LStr ''saturation set successfully''] s)
      | Inl e \<Rightarrow> (Inr (), log_error e (s\<lparr>state_saturation := oldSat\<rparr>)))"

definition setSaturation_revert ::
  "int \<Rightarrow> unit reply \<Rightarrow> 'a shadow_scheme \<Rightarrow> unit reply \<times> 'a shadow_scheme" where
  "setSaturation_revert value r s =
     (case setSaturation_revert_start value s of
        (Some oldSat, s1) \<Rightarrow> setSaturation_revert_resume oldSat r s1
      | (None, s1) \<Rightarrow> (Inr (), s1))"

subsection \<open>The revision that queries the device on every read\<close>

record light_pull = effects +
  state_Hue :: int
  state_Saturation :: int

definition setHue_pull :: "int \<Rightarrow> unit reply \<Rightarrow> light_pull \<Rightarrow> unit reply \<times> light_pull" where
  "setHue_pull value r s =
     (let s1 = debug_info [LStr ''setting hue to'', LVal (CNum value)] (s\<lparr>state_Hue := value\<rparr>)
      in case request (SetColor (hsl_of (state_Hue s1) (state_Saturation s1))) r s1 of
           (Inr _, s2) \<Rightarrow> (Inr (), debug_info [LStr ''hue set successfully''] s2)
         | (Inl e, s2) \<Rightarrow> (Inr (), log_error e s2))"

definition setSaturation_pull ::
  "int \<Rightarrow> unit reply \<Rightarrow> light_pull \<Rightarrow> unit reply \<times> light_pull" where
  "setSaturation_pull value r s =
     (let s1 = debug_info [LStr ''setting saturation to'', LVal (CNum value)]
                 (s\<lparr>state_Saturation := value\<rparr>)
      in case request (SetColor (hsl_of (state_Hue s1) (state_Saturation s1))) r s1 of
           (Inr _, s2) \<Rightarrow> (Inr (), debug_info [LStr ''saturation set successfully''] s2)
         | (Inl e, s2) \<Rightarrow> (Inr (), log_error e s2))"

text \<open>
  The getters: the value the promise resolves with, or the \<open>HapStatusError\<close> it rejects
  with.
\<close>

definition getOn ::
  "CharacteristicValue reply \<Rightarrow> 'a effects_scheme \<Rightarrow> CharacteristicValue reply \<times> 'a effects_scheme" where
  "getOn r s =
     (case request GetPower r s of
        (Inr isOn, s1) \<Rightarrow> (Inr isOn, s1)
      | (Inl e, s1) \<Rightarrow> (Inl (HapStatusError SERVICE_COMMUNICATION_FAILURE), log_error e s1))"

definition getBrightness ::
  "CharacteristicValue reply \<Rightarrow> 'a effects_scheme \<Rightarrow> CharacteristicValue reply \<times> 'a effects_scheme" where
  "getBrightness r s =
     (case request GetBrightness r s of
        (Inr b, s1) \<Rightarrow> (Inr b, s1)
      | (Inl e, s1) \<Rightarrow> (Inl (HapStatusError SERVICE_COMMUNICATION_FAILURE), log_error e s1))"

definition getColorTemperature ::
  "color reply \<Rightarrow> 'a effects_scheme \<Rightarrow> CharacteristicValue reply \<times> 'a effects_scheme" where
  "getColorTemperature r s =
     (case request GetColor r s of
        (Inr c, s1) \<Rightarrow>
          (let temp = mired_value c;
               temp = min (max temp 140) 500
           in (Inr (CNum temp), s1))
      | (Inl e, s1) \<Rightarrow> (Inl (HapStatusError SERVICE_COMMUNICATION_FAILURE), log_error e s1))"

definition getHue ::
  "color reply \<Rightarrow> 'a effects_scheme \<Rightarrow> CharacteristicValue reply \<times> 'a effects_scheme" where
  "getHue r s =
     (case request GetColor r s of
        (Inr c, s1) \<Rightarrow> (Inr (CNum (hsl_hue c)), s1)
      | (Inl e, s1) \<Rightarrow> (Inl (HapStatusError SERVICE_COMMUNICATION_FAILURE), log_error e s1))"

definition getSaturation ::
  "color reply \<Rightarrow> 'a effects_scheme \<Rightarrow> CharacteristicValue reply \<times> 'a effects_scheme" where
  "getSaturation r s =
     (case request GetColor r s of
        (Inr c, s1) \<Rightarrow> (Inr (CNum (hsl_saturation c)), s1)
      | (Inl e, s1) \<Rightarrow> (Inl (HapStatusError SERVICE_COMMUNICATION_FAILURE), log_error e s1))"

subsection \<open>The first revision that listens to device events\<close>

text \<open>
  This revision reaches every characteristic through
  \<open>this.service.getCharacteristic(...)\<close>; \<open>service s c\<close> is the value of characteristic \<open>c\<close>
  of the Lightbulb service, and \<open>props s c\<close> the bounds \<open>(minValue, maxValue)\<close> that the
  adapter has installed on it with \<open>setProps\<close>.
\<close>

record light_event = shadow +
  service :: "characteristic \<Rightarrow> CharacteristicValue"
  props :: "characteristic \<Rightarrow> (int \<times> int) option"

text \<open>
  The platform's side of \<open>updateValue\<close>: a number outside the bounds of the
  characteristic's props is stored as the nearest bound.
\<close>

fun validateUserInput :: "(int \<times> int) option \<Rightarrow> CharacteristicValue \<Rightarrow> CharacteristicValue" where
  "validateUserInput (Some (minValue, maxValue)) (CNum n) =
     CNum (if n < minValue then minValue else if maxValue < n then maxValue else n)"
| "validateUserInput p v = v"

text \<open>\<open>updates\<close> keeps the argument of the call, \<open>service\<close> the value stored.\<close>

definition service_updateValue ::
  "characteristic \<Rightarrow> CharacteristicValue \<Rightarrow> light_event \<Rightarrow> light_event" where
  "service_updateValue c v s =
     s\<lparr>service := (service s)(c := validateUserInput (props s c) v),
       updates := updates s @ [(c, v)]\<rparr>"

definition updateHueAndSaturation_event :: "color \<Rightarrow> light_event \<Rightarrow> light_event" where
  "updateHueAndSaturation_event c s =
     (let s1 = service_updateValue Hue (CNum (hsv_hue c)) (s\<lparr>state_hue := hsv_hue c\<rparr>)
      in service_updateValue Sat (CNum (hsv_saturation c))
           (s1\<lparr>state_saturation := hsv_saturation c\<rparr>))"

definition on_colorChanged_temperature_event :: "color \<Rightarrow> light_event \<Rightarrow> light_event" where
  "on_colorChanged_temperature_event c s =
     (if model c \<noteq> ''temperature'' \<and> model c \<noteq> ''mired'' then s
      else updateHueAndSaturation_event c
             (service_updateValue ColorTmp (CNum (mired_value c)) s))"

definition on_colorChanged_full_event :: "color \<Rightarrow> light_event \<Rightarrow> light_event" where
  "on_colorChanged_full_event c s =
     (if model c = ''temperature'' \<or> model c = ''mired'' then s
      else updateHueAndSaturation_event c s)"

definition on_brightnessChanged_event :: "CharacteristicValue \<Rightarrow> light_event \<Rightarrow> light_event" where
  "on_brightnessChanged_event bright s = service_updateValue Brightness bright s"

definition on_powerChanged_event :: "CharacteristicValue \<Rightarrow> light_event \<Rightarrow> light_event" where
  "on_powerChanged_event p s = service_updateValue Power p s"

text \<open>
  The synchronous part of the constructor (\<open>svc\<close>: the values the platform holds for the
  Lightbulb service) and the \<open>then\<close> callback of \<open>miio.device(...)\<close>, which installs the
  bounds on the colour-temperature characteristic where it registers the listener.
\<close>

definition Light_event :: "bool \<Rightarrow> (characteristic \<Rightarrow> CharacteristicValue) \<Rightarrow> light_event" where
  "Light_event dbg svc =
     \<lparr>connection = None, debugLogging = dbg, sent = [], logged = [],
      state_hue = 0, state_saturation = 0, updates = [], listeners = [],
      service = svc, props = (\<lambda>c. None)\<rparr>"

definition connection_opened_event :: "miio \<Rightarrow> light_event \<Rightarrow> light_event" where
  "connection_opened_event device s =
     (let s1 = log_info [LStr ''opened connection to device'', LDevice device]
                 (s\<lparr>connection := Some device\<rparr>);
          s2 = (if matches device [''cap:colorable'', ''cap:color:temperature'']
                then s1\<lparr>props := (props s1)(ColorTmp := Some (configs_minTemp, configs_maxTemp)),
                        listeners := listeners s1 @ [OnColorChangedTemperature]\<rparr>
                else s1);
          s3 = (if matches device [''cap:colorable'', ''cap:color:full'']
                then s2\<lparr>listeners := listeners s2 @ [OnColorChangedFull]\<rparr>
                else s2);
          s4 = (if matches device [''cap:dimmable'', ''cap:brightness'']
                then s3\<lparr>listeners := listeners s3 @ [OnBrightnessChanged]\<rparr>
                else s3)
      in s4\<lparr>listeners := listeners s4 @ [OnPowerChanged]\<rparr>)"

fun run_listener_event :: "listener \<Rightarrow> event \<Rightarrow> light_event \<Rightarrow> light_event" where
  "run_listener_event OnColorChangedTemperature (ColorChanged c) s =
     on_colorChanged_temperature_event c s"
| "run_listener_event OnColorChangedFull (ColorChanged c) s = on_colorChanged_full_event c s"
| "run_listener_event OnBrightnessChanged (BrightnessChanged b) s = on_brightnessChanged_event b s"
| "run_listener_event OnPowerChanged (PowerChanged p) s = on_powerChanged_event p s"
| "run_listener_event l e s = s"

definition emit_event :: "event \<Rightarrow> light_event \<Rightarrow> light_event" where
  "emit_event e s = fold (\<lambda>l. run_listener_event l e) (listeners s) s"

subsection \<open>The revision with a moonlight service\<close>

definition moonlight_updateValue :: "CharacteristicValue \<Rightarrow> light_chars \<Rightarrow> light_chars" where
  "moonlight_updateValue v s =
     s\<lparr>lightCharacteristics := (lightCharacteristics s)\<lparr>moonlight := Some v\<rparr>,
       updates := updates s @ [(Moonlight, v)]\<rparr>"

definition moonlightBrightness_updateValue ::
  "CharacteristicValue \<Rightarrow> light_chars \<Rightarrow> light_chars" where
  "moonlightBrightness_updateValue v s =
     s\<lparr>lightCharacteristics := (lightCharacteristics s)\<lparr>moonlightBrightness := Some v\<rparr>,
       updates := updates s @ [(MoonlightBrightness, v)]\<rparr>"

definition updateHueAndSaturation_moon :: "color \<Rightarrow> light_chars \<Rightarrow> light_chars" where
  "updateHueAndSaturation_moon c s =
     (let s1 = (case hue (lightCharacteristics s) of
                  Some cur \<Rightarrow> hue_updateValue (CNum (hsv_hue c)) (s\<lparr>state_hue := hsv_hue c\<rparr>)
                | None \<Rightarrow> s)
      in case sat (lightCharacteristics s1) of
           Some cur \<Rightarrow>
             sat_updateValue (CNum (hsv_saturation c)) (s1\<lparr>state_saturation := hsv_saturation c\<rparr>)
         | None \<Rightarrow> s1)"

definition on_colorChanged_temperature_moon :: "color \<Rightarrow> light_chars \<Rightarrow> light_chars" where
  "on_colorChanged_temperature_moon c s =
     (if model c \<noteq> ''temperature'' \<and> model c \<noteq> ''mired'' then s
      else
        (let tmp = min (max (mired_value c) configs_minTemp) configs_maxTemp
         in case colorTmp (lightCharacteristics s) of
              Some cur \<Rightarrow> updateHueAndSaturation_moon c (colorTmp_updateValue (CNum tmp) s)
            | None \<Rightarrow> s))"

definition on_colorChanged_full_moon :: "color \<Rightarrow> light_chars \<Rightarrow> light_chars" where
  "on_colorChanged_full_moon c s =
     (if model c = ''temperature'' \<or> model c = ''mired'' then s
      else
        (let s1 = (case colorTmp (lightCharacteristics s) of
                     Some cur \<Rightarrow> colorTmp_updateValue (CNum configs_minTemp) s
                   | None \<Rightarrow> s)
         in updateHueAndSaturation_moon c s1))"

definition on_brightnessChanged_moon :: "CharacteristicValue \<Rightarrow> light_chars \<Rightarrow> light_chars" where
  "on_brightnessChanged_moon bright s =
     (case brightness (lightCharacteristics s) of
        Some cur \<Rightarrow> brightness_updateValue bright s
      | None \<Rightarrow> s)"

definition on_powerChanged_moon :: "CharacteristicValue \<Rightarrow> light_chars \<Rightarrow> light_chars" where
  "on_powerChanged_moon p s = power_updateValue p s"

definition on_modeChanged :: "string \<Rightarrow> light_chars \<Rightarrow> light_chars" where
  "on_modeChanged mode s =
     (case moonlight (lightCharacteristics s) of
        Some cur \<Rightarrow> moonlight_updateValue (CBool (mode = ''moonlight'')) s
      | None \<Rightarrow> s)"

definition on_updateMoonlightBrightness :: "CharacteristicValue \<Rightarrow> light_chars \<Rightarrow> light_chars" where
  "on_updateMoonlightBrightness bright s =
     (case moonlightBrightness (lightCharacteristics s) of
        Some cur \<Rightarrow> moonlightBrightness_updateValue bright s
      | None \<Rightarrow> s)"

text \<open>\<open>setMoonLight(value)\<close>: both calls are awaited outside any \<open>try\<close>.\<close>

definition setMoonLight ::
  "CharacteristicValue \<Rightarrow> unit reply \<Rightarrow> light_chars \<Rightarrow> unit reply \<times> light_chars" where
  "setMoonLight value r s =
     (if truthy value then
        (case request (ChangeMode ''moonlight'') r s of
           (Inl e, s1) \<Rightarrow> (Inl e, s1)
         | (Inr _, s1) \<Rightarrow> (Inr (), s1))
      else
        (case request (SetPower (CBool False)) r s of
           (Inl e, s1) \<Rightarrow> (Inl e, s1)
         | (Inr _, s1) \<Rightarrow> (Inr (), s1)))"

text \<open>
  \<open>setMoonLightBrightness(value)\<close> starts \<open>this.setBrightness(value)\<close> without awaiting
  it.
\<close>

definition setMoonLightBrightness ::
  "CharacteristicValue \<Rightarrow> unit reply \<Rightarrow> light_chars \<Rightarrow> unit reply \<times> light_chars" where
  "setMoonLightBrightness value r s = (Inr (), snd (setBrightness_plain value r s))"

section \<open>Sequences of hue and saturation sets\<close>

text \<open>
  The platform sets hue and saturation in any order; each entry of a run is a set
  together with the device client's reply to the command that set issues.
\<close>

datatype set_op = SetHue int | SetSaturation int

fun apply_set :: "set_op \<Rightarrow> unit reply \<Rightarrow> light \<Rightarrow> light" where
  "apply_set (SetHue v) r s = snd (setHue v r s)"
| "apply_set (SetSaturation v) r s = snd (setSaturation v r s)"

fun run_sets :: "(set_op \<times> unit reply) list \<Rightarrow> light \<Rightarrow> light" where
  "run_sets [] s = s"
| "run_sets ((op, r) # ops) s = run_sets ops (apply_set op r s)"

text \<open>
  The commands the specification expects of a run that starts with shadow hue \<open>H\<close> and
  shadow saturation \<open>S\<close>: each set sends both channels, the value just passed for its own
  channel and the stored value for the other; a set whose command fails leaves the
  stored value as it was.
\<close>

fun combined_commands :: "int \<Rightarrow> int \<Rightarrow> (set_op \<times> unit reply) list \<Rightarrow> devcall list" where
  "combined_commands H S [] = []"
| "combined_commands H S ((SetHue v, r) # ops) =
     SetColor (hsl_of v S) # combined_commands (case r of Inl e \<Rightarrow> H | Inr u \<Rightarrow> v) S ops"
| "combined_commands H S ((SetSaturation v, r) # ops) =
     SetColor (hsl_of H v) # combined_commands H (case r of Inl e \<Rightarrow> S | Inr u \<Rightarrow> v) ops"

section \<open>Colour temperature: mired to Kelvin\<close>

lemma Math_round_mired:
  assumes "0 < m"
  shows "Math_round (1000000 / of_int m) = (2000000 + m) div (2 * m)"
proof -
  have "1000000 / rat_of_int m + 1 / 2 = rat_of_int (2000000 + m) / rat_of_int (2 * m)"
    using assms by (simp add: field_simps)
  then show ?thesis
    unfolding Math_round_def by (simp only: floor_divide_of_int_eq)
qed

lemma round_mired:
  assumes "0 < m"
  shows "round (1000000 / rat_of_int m) = (2000000 + m) div (2 * m)"
  using Math_round_mired [OF assms] by (simp add: Math_round_def round_def)

lemma kelvin_bounds:
  fixes m :: int
  assumes "140 \<le> m" "m \<le> 500"
  shows "2000 \<le> (2000000 + m) div (2 * m) \<and> (2000000 + m) div (2 * m) \<le> 7143"
proof
  have m: "0 < 2 * m" using assms by simp
  have "2000 = (2000 * (2 * m)) div (2 * m)" using m by simp
  also have "\<dots> \<le> (2000000 + m) div (2 * m)"
    by (rule zdiv_mono1) (use assms in simp_all)
  finally show "2000 \<le> (2000000 + m) div (2 * m)" .
  have "(2000000 + m) div (2 * m) \<le> ((2 * m - 1) + 7143 * (2 * m)) div (2 * m)"
    by (rule zdiv_mono1) (use assms in simp_all)
  also have "\<dots> = 7143 + (2 * m - 1) div (2 * m)"
    by (rule div_mult_self1) (use m in simp)
  also have "(2 * m - 1) div (2 * m) = 0"
    using m by (simp add: div_pos_pos_trivial)
  finally show "(2000000 + m) div (2 * m) \<le> 7143" by simp
qed

lemma sent_setColorTemperature:
  "sent (snd (setColorTemperature v r s)) =
     (case connection s of None \<Rightarrow> sent s | Some d \<Rightarrow> sent s @ [SetColor (kelvin_of v)])"
  by (simp add: setColorTemperature_def request_def debug_info_def log_info_def log_error_def
        nightMode_off_def nightModeSwitchOn_updateValue_def Let_def
      split: option.splits sum.splits)

lemma sent_setColorTemperature_plain:
  "sent (snd (setColorTemperature_plain v r s)) =
     (case connection s of None \<Rightarrow> sent s | Some d \<Rightarrow> sent s @ [SetColor (kelvin_of v)])"
  by (simp add: setColorTemperature_plain_def request_def debug_info_def log_info_def log_error_def
        Let_def
      split: option.splits sum.splits)

text \<open>
  Claim C3. For every mired value in \<open>[140, 500]\<close> the Kelvin value that
  \<open>setColorTemperature\<close> computes is \<open>round (1000000 / mired)\<close>, it is a positive integer
  (so its text is its decimal digits, without a sign), and the one command issued to the
  device is that integer followed by \<open>K\<close>. This holds for \<open>setColorTemperature\<close> of
  \<open>src/platformAccessory.ts\<close> and for the text shared by the three earlier revisions.
  Before the connection is established the member access on \<open>this.connection\<close> fails
  inside the \<open>try\<close> and nothing is issued.
\<close>

theorem setColorTemperature_kelvin:
  assumes "140 \<le> mired" and "mired \<le> 500"
  shows "kelvin_of mired = Number_toString (round (1000000 / rat_of_int mired)) @ ''K''
       \<and> 0 < round (1000000 / rat_of_int mired)
       \<and> Number_toString (round (1000000 / rat_of_int mired))
           = show_nat (nat (round (1000000 / rat_of_int mired)))
       \<and> sent (snd (setColorTemperature mired r s)) =
           (case connection s of
              None \<Rightarrow> sent s
            | Some d \<Rightarrow>
                sent s @ [SetColor (Number_toString (round (1000000 / rat_of_int mired)) @ ''K'')])
       \<and> sent (snd (setColorTemperature_plain mired r' s')) =
           (case connection s' of
              None \<Rightarrow> sent s'
            | Some d \<Rightarrow>
                sent s' @ [SetColor (Number_toString (round (1000000 / rat_of_int mired)) @ ''K'')])"
proof -
  have pos: "0 < mired" using assms by simp
  have k: "kelvin_of mired = Number_toString (round (1000000 / rat_of_int mired)) @ ''K''"
    using pos by (simp add: kelvin_of_def Math_round_def round_def)
  have "2000 \<le> round (1000000 / rat_of_int mired)"
    using kelvin_bounds [OF assms] by (simp add: round_mired [OF pos])
  then have p: "0 < round (1000000 / rat_of_int mired)" by simp
  then have n: "Number_toString (round (1000000 / rat_of_int mired))
           = show_nat (nat (round (1000000 / rat_of_int mired)))"
    by (simp add: Number_toString_def)
  show ?thesis
    using k p n by (simp only: sent_setColorTemperature sent_setColorTemperature_plain simp_thms)
qed

theorem setColorTemperature_kelvin_witness:
  "(140::int) \<le> 160 \<and> (160::int) \<le> 500
   \<and> round (1000000 / rat_of_int 160) = 6250
   \<and> kelvin_of 160 = ''6250K''
   \<and> sent (snd (setColorTemperature 160 (Inr ())
        (connection_opened (Device (\<lambda>tags. True)) (\<lambda>c. CNull) (Light False (CBool True) (CBool False)))))
      = [SetColor ''6250K'']
   \<and> sent (snd (setColorTemperature_plain 160 (Inl (DeviceError ''timeout''))
        \<lparr>connection = Some (Device (\<lambda>tags. True)), debugLogging = True, sent = [], logged = [],
         state_Hue = 0, state_Saturation = 0\<rparr>))
      = [SetColor ''6250K'']"
proof -
  have r: "round (1000000 / rat_of_int 160) = 6250"
    by (simp add: round_mired)
  have n: "Number_toString 6250 = ''6250''"
    by (simp add: Number_toString_def show_nat.simps digit_def)
  have c: "connection (connection_opened (Device (\<lambda>tags. True)) (\<lambda>c. CNull) (Light False (CBool True) (CBool False)))
      = Some (Device (\<lambda>tags. True))"
    by (simp add: connection_opened_def Light_def log_info_def Let_def)
  have s: "sent (connection_opened (Device (\<lambda>tags. True)) (\<lambda>c. CNull) (Light False (CBool True) (CBool False))) = []"
    by (simp add: connection_opened_def Light_def log_info_def Let_def)
  show ?thesis
    using setColorTemperature_kelvin [of 160 "Inr ()"
        "connection_opened (Device (\<lambda>tags. True)) (\<lambda>c. CNull) (Light False (CBool True) (CBool False))"
        "Inl (DeviceError ''timeout'')"
        "\<lparr>connection = Some (Device (\<lambda>tags. True)), debugLogging = True, sent = [], logged = [],
         state_Hue = 0, state_Saturation = 0\<rparr>"]
    by (simp add: r n c s)
qed

section \<open>Hue and saturation sets\<close>

lemmas setter_defs =
  request_def debug_info_def log_info_def log_error_def nightMode_off_def
  nightModeSwitchOn_updateValue_def Let_def

text \<open>
  The two halves of a set in a row, the reply arriving with nothing in between, are the
  body of the source read as one step.
\<close>

lemma setHue_fused:
  "setHue value r s =
     (let oldHue = state_hue s;
          s1 = debug_info [LStr ''setting hue to'', LVal (CNum value)] (s\<lparr>state_hue := value\<rparr>)
      in case request (SetColor (hsl_of (state_hue s1) (state_saturation s1))) r s1 of
           (Inr _, s2) \<Rightarrow>
             (Inr (), debug_info [LStr ''hue set successfully''] (nightMode_off s2))
         | (Inl e, s2) \<Rightarrow> (Inr (), log_error e (s2\<lparr>state_hue := oldHue\<rparr>)))"
  by (simp add: setHue_def setHue_start_def setHue_resume_def request_def Let_def
      split: option.splits sum.splits)

lemma setSaturation_fused:
  "setSaturation value r s =
     (let oldSat = state_saturation s;
          s1 = debug_info [LStr ''setting saturation to'', LVal (CNum value)]
                 (s\<lparr>state_saturation := value\<rparr>)
      in case request (SetColor (hsl_of (state_hue s1) (state_saturation s1))) r s1 of
           (Inr _, s2) \<Rightarrow>
             (Inr (), debug_info [LStr ''saturation set successfully''] (nightMode_off s2))
         | (Inl e, s2) \<Rightarrow> (Inr (), log_error e (s2\<lparr>state_saturation := oldSat\<rparr>)))"
  by (simp add: setSaturation_def setSaturation_start_def setSaturation_resume_def request_def
        Let_def
      split: option.splits sum.splits)

lemma setHue_revert_fused:
  "setHue_revert value r s =
     (let oldHue = state_hue s;
          s1 = debug_info [LStr ''setting hue to'', LVal (CNum value)] (s\<lparr>state_hue := value\<rparr>)
      in case request (SetColor (hsl_of (state_hue s1) (state_saturation s1))) r s1 of
           (Inr _, s2) \<Rightarrow> (Inr (), debug_info [LStr ''hue set successfully''] s2)
         | (Inl e, s2) \<Rightarrow> (Inr (), log_error e (s2\<lparr>state_hue := oldHue\<rparr>)))"
  by (simp add: setHue_revert_def setHue_revert_start_def setHue_revert_resume_def request_def
        Let_def
      split: option.splits sum.splits)

lemma setSaturation_revert_fused:
  "setSaturation_revert value r s =
     (let oldSat = state_saturation s;
          s1 = debug_info [LStr ''setting saturation to'', LVal (CNum value)]
                 (s\<lparr>state_saturation := value\<rparr>)
      in case request (SetColor (hsl_of (state_hue s1) (state_saturation s1))) r s1 of
           (Inr _, s2) \<Rightarrow> (Inr (), debug_info [LStr ''saturation set successfully''] s2)
         | (Inl e, s2) \<Rightarrow> (Inr (), log_error e (s2\<lparr>state_saturation := oldSat\<rparr>)))"
  by (simp add: setSaturation_revert_def setSaturation_revert_start_def
        setSaturation_revert_resume_def request_def Let_def
      split: option.splits sum.splits)

lemma setHue_fst: "fst (setHue v r s) = Inr ()"
  by (simp add: setHue_fused setter_defs split: option.splits sum.splits)

lemma setHue_sent:
  "sent (snd (setHue v r s)) =
     (case connection s of
        None \<Rightarrow> sent s
      | Some d \<Rightarrow> sent s @ [SetColor (hsl_of v (state_saturation s))])"
  by (simp add: setHue_fused setter_defs split: option.splits sum.splits)

lemma setHue_connection: "connection (snd (setHue v r s)) = connection s"
  by (simp add: setHue_fused setter_defs split: option.splits sum.splits)

lemma setHue_state_hue:
  "state_hue (snd (setHue v r s)) =
     (case connection s of
        None \<Rightarrow> state_hue s
      | Some d \<Rightarrow> (case r of Inl e \<Rightarrow> state_hue s | Inr u \<Rightarrow> v))"
  by (simp add: setHue_fused setter_defs split: option.splits sum.splits)

lemma setHue_state_saturation: "state_saturation (snd (setHue v r s)) = state_saturation s"
  by (simp add: setHue_fused setter_defs split: option.splits sum.splits)

lemma setHue_failed_platform:
  "updates (snd (setHue v (Inl e) s)) = updates s
   \<and> lightCharacteristics (snd (setHue v (Inl e) s)) = lightCharacteristics s
   \<and> nightModeSwitchOn (snd (setHue v (Inl e) s)) = nightModeSwitchOn s"
  by (simp add: setHue_fused setter_defs split: option.splits)

lemma setSaturation_fst: "fst (setSaturation v r s) = Inr ()"
  by (simp add: setSaturation_fused setter_defs split: option.splits sum.splits)

lemma setSaturation_sent:
  "sent (snd (setSaturation v r s)) =
     (case connection s of
        None \<Rightarrow> sent s
      | Some d \<Rightarrow> sent s @ [SetColor (hsl_of (state_hue s) v)])"
  by (simp add: setSaturation_fused setter_defs split: option.splits sum.splits)

lemma setSaturation_connection: "connection (snd (setSaturation v r s)) = connection s"
  by (simp add: setSaturation_fused setter_defs split: option.splits sum.splits)

lemma setSaturation_state_saturation:
  "state_saturation (snd (setSaturation v r s)) =
     (case connection s of
        None \<Rightarrow> state_saturation s
      | Some d \<Rightarrow> (case r of Inl e \<Rightarrow> state_saturation s | Inr u \<Rightarrow> v))"
  by (simp add: setSaturation_fused setter_defs split: option.splits sum.splits)

lemma setSaturation_state_hue: "state_hue (snd (setSaturation v r s)) = state_hue s"
  by (simp add: setSaturation_fused setter_defs split: option.splits sum.splits)

lemma setSaturation_failed_platform:
  "updates (snd (setSaturation v (Inl e) s)) = updates s
   \<and> lightCharacteristics (snd (setSaturation v (Inl e) s)) = lightCharacteristics s
   \<and> nightModeSwitchOn (snd (setSaturation v (Inl e) s)) = nightModeSwitchOn s"
  by (simp add: setSaturation_fused setter_defs split: option.splits)

lemma setHue_revert_sent:
  "sent (snd (setHue_revert v r s)) =
     (case connection s of
        None \<Rightarrow> sent s
      | Some d \<Rightarrow> sent s @ [SetColor (hsl_of v (state_saturation s))])"
  by (simp add: setHue_revert_fused setter_defs split: option.splits sum.splits)

lemma setHue_revert_state_hue:
  "state_hue (snd (setHue_revert v r s)) =
     (case connection s of
        None \<Rightarrow> state_hue s
      | Some d \<Rightarrow> (case r of Inl e \<Rightarrow> state_hue s | Inr u \<Rightarrow> v))"
  by (simp add: setHue_revert_fused setter_defs split: option.splits sum.splits)

lemma setHue_revert_platform:
  "updates (snd (setHue_revert v r s)) = updates s
   \<and> shadow.more (snd (setHue_revert v r s)) = shadow.more s
   \<and> fst (setHue_revert v r s) = Inr ()"
  by (simp add: setHue_revert_fused setter_defs split: option.splits sum.splits)

lemma setSaturation_revert_sent:
  "sent (snd (setSaturation_revert v r s)) =
     (case connection s of
        None \<Rightarrow> sent s
      | Some d \<Rightarrow> sent s @ [SetColor (hsl_of (state_hue s) v)])"
  by (simp add: setSaturation_revert_fused setter_defs split: option.splits sum.splits)

lemma setSaturation_revert_state_saturation:
  "state_saturation (snd (setSaturation_revert v r s)) =
     (case connection s of
        None \<Rightarrow> state_saturation s
      | Some d \<Rightarrow> (case r of Inl e \<Rightarrow> state_saturation s | Inr u \<Rightarrow> v))"
  by (simp add: setSaturation_revert_fused setter_defs split: option.splits sum.splits)

lemma setSaturation_revert_platform:
  "updates (snd (setSaturation_revert v r s)) = updates s
   \<and> shadow.more (snd (setSaturation_revert v r s)) = shadow.more s
   \<and> fst (setSaturation_revert v r s) = Inr ()"
  by (simp add: setSaturation_revert_fused setter_defs split: option.splits sum.splits)

lemma setHue_pull_sent:
  "sent (snd (setHue_pull v r s)) =
     (case connection s of
        None \<Rightarrow> sent s
      | Some d \<Rightarrow> sent s @ [SetColor (hsl_of v (state_Saturation s))])"
  by (simp add: setHue_pull_def setter_defs split: option.splits sum.splits)

lemma setSaturation_pull_sent:
  "sent (snd (setSaturation_pull v r s)) =
     (case connection s of
        None \<Rightarrow> sent s
      | Some d \<Rightarrow> sent s @ [SetColor (hsl_of (state_Hue s) v)])"
  by (simp add: setSaturation_pull_def setter_defs split: option.splits sum.splits)

lemma run_sets_disconnected:
  "connection s = None \<Longrightarrow> sent (run_sets ops s) = sent s"
proof (induction ops arbitrary: s)
  case Nil
  then show ?case by simp
next
  case (Cons x ops)
  obtain op r where x: "x = (op, r)" by (cases x)
  show ?case
  proof (cases op)
    case (SetHue v)
    with Cons x show ?thesis
      by (simp add: setHue_connection setHue_sent)
  next
    case (SetSaturation v)
    with Cons x show ?thesis
      by (simp add: setSaturation_connection setSaturation_sent)
  qed
qed

lemma run_sets_connected:
  "connection s = Some d \<Longrightarrow>
     sent (run_sets ops s) = sent s @ combined_commands (state_hue s) (state_saturation s) ops"
proof (induction ops arbitrary: s)
  case Nil
  then show ?case by simp
next
  case (Cons x ops)
  obtain op r where x: "x = (op, r)" by (cases x)
  show ?case
  proof (cases op)
    case (SetHue v)
    have "connection (snd (setHue v r s)) = Some d"
      using Cons.prems by (simp add: setHue_connection)
    from Cons.IH [OF this] x SetHue Cons.prems show ?thesis
      by (simp add: setHue_sent setHue_state_hue setHue_state_saturation)
  next
    case (SetSaturation v)
    have "connection (snd (setSaturation v r s)) = Some d"
      using Cons.prems by (simp add: setSaturation_connection)
    from Cons.IH [OF this] x SetSaturation Cons.prems show ?thesis
      by (simp add: setSaturation_sent setSaturation_state_hue setSaturation_state_saturation)
  qed
qed

lemma run_sets_sent:
  "sent (run_sets ops s) =
     (case connection s of
        None \<Rightarrow> sent s
      | Some d \<Rightarrow> sent s @ combined_commands (state_hue s) (state_saturation s) ops)"
  by (cases "connection s") (simp_all add: run_sets_disconnected run_sets_connected)

text \<open>
  Claim C1. Every call of \<open>setHue\<close> or \<open>setSaturation\<close>, from any state, issues at most
  one command, and that command is the combined string \<open>hsl(H, S%, 100%)\<close> built from
  the value just passed for the channel being set and the stored shadow value of the
  other channel. This holds in \<open>src/platformAccessory.ts\<close>, in the two earlier revisions
  that restore the shadow value and in the revision that does not. Over a run of sets in
  any order the commands issued are exactly the combined commands of the latest values.
  (Before the connection is established the member access on \<open>this.connection\<close> fails
  inside the \<open>try\<close> and nothing is issued.)
\<close>

theorem setHue_setSaturation_combined:
  "sent (snd (setHue v r s)) =
     (case connection s of
        None \<Rightarrow> sent s
      | Some d \<Rightarrow> sent s @ [SetColor (hsl_of v (state_saturation s))])
   \<and> sent (snd (setSaturation v r s)) =
     (case connection s of
        None \<Rightarrow> sent s
      | Some d \<Rightarrow> sent s @ [SetColor (hsl_of (state_hue s) v)])
   \<and> sent (snd (setHue_revert v r s1)) =
     (case connection s1 of
        None \<Rightarrow> sent s1
      | Some d \<Rightarrow> sent s1 @ [SetColor (hsl_of v (state_saturation s1))])
   \<and> sent (snd (setSaturation_revert v r s1)) =
     (case connection s1 of
        None \<Rightarrow> sent s1
      | Some d \<Rightarrow> sent s1 @ [SetColor (hsl_of (state_hue s1) v)])
   \<and> sent (snd (setHue_pull v r s0)) =
     (case connection s0 of
        None \<Rightarrow> sent s0
      | Some d \<Rightarrow> sent s0 @ [SetColor (hsl_of v (state_Saturation s0))])
   \<and> sent (snd (setSaturation_pull v r s0)) =
     (case connection s0 of
        None \<Rightarrow> sent s0
      | Some d \<Rightarrow> sent s0 @ [SetColor (hsl_of (state_Hue s0) v)])
   \<and> sent (run_sets ops s) =
     (case connection s of
        None \<Rightarrow> sent s
      | Some d \<Rightarrow> sent s @ combined_commands (state_hue s) (state_saturation s) ops)"
  by (simp only: setHue_sent setSaturation_sent setHue_revert_sent setSaturation_revert_sent
        setHue_pull_sent setSaturation_pull_sent run_sets_sent simp_thms)

lemma show_nat_examples:
  "show_nat 0 = ''0''" "show_nat 50 = ''50''" "show_nat 120 = ''120''" "show_nat 100 = ''100''"
  by (simp_all add: show_nat.simps digit_def)

theorem setHue_setSaturation_combined_witness:
  "sent (run_sets [(SetHue 120, Inr ()), (SetSaturation 50, Inl (DeviceError ''timeout'')),
                   (SetHue 0, Inr ())]
          (connection_opened (Device (\<lambda>tags. True)) (\<lambda>c. CNull) (Light False (CBool True) (CBool False))))
   = [SetColor ''hsl(120, 0%, 100%)'', SetColor ''hsl(120, 50%, 100%)'',
      SetColor ''hsl(0, 0%, 100%)'']"
proof -
  let ?s = "connection_opened (Device (\<lambda>tags. True)) (\<lambda>c. CNull) (Light False (CBool True) (CBool False))"
  have c: "connection ?s = Some (Device (\<lambda>tags. True))" "sent ?s = []"
    "state_hue ?s = 0" "state_saturation ?s = 0"
    by (simp_all add: connection_opened_def Light_def log_info_def Let_def)
  show ?thesis
    using setHue_setSaturation_combined [of 0 "Inr ()" ?s
        "\<lparr>connection = None, debugLogging = False, sent = [], logged = [],
          state_hue = 0, state_saturation = 0, updates = [], listeners = []\<rparr>"
        "\<lparr>connection = None, debugLogging = False, sent = [], logged = [],
          state_Hue = 0, state_Saturation = 0\<rparr>"
        "[(SetHue 120, Inr ()), (SetSaturation 50, Inl (DeviceError ''timeout'')),
          (SetHue 0, Inr ())]"]
    by (simp add: c hsl_of_def Number_toString_def show_nat_examples)
qed

section \<open>Failed sets and the shadow state\<close>

lemma setHue_halves:
  "fst (setHue_start v s) = (case connection s of None \<Rightarrow> None | Some d \<Rightarrow> Some (state_hue s))
   \<and> state_hue (snd (setHue_start v s)) = (case connection s of None \<Rightarrow> state_hue s | Some d \<Rightarrow> v)
   \<and> state_hue (snd (setHue_resume old (Inl e) t)) = old
   \<and> updates (snd (setHue_resume old (Inl e) t)) = updates t
   \<and> lightCharacteristics (snd (setHue_resume old (Inl e) t)) = lightCharacteristics t
   \<and> nightModeSwitchOn (snd (setHue_resume old (Inl e) t)) = nightModeSwitchOn t
   \<and> fst (setHue_resume old r t) = Inr ()
   \<and> state_hue (snd (setHue_resume old (Inr ()) t)) = state_hue t"
  by (simp add: setHue_start_def setHue_resume_def setter_defs split: option.splits sum.splits)

lemma setSaturation_halves:
  "fst (setSaturation_start v s) =
     (case connection s of None \<Rightarrow> None | Some d \<Rightarrow> Some (state_saturation s))
   \<and> state_saturation (snd (setSaturation_start v s)) =
     (case connection s of None \<Rightarrow> state_saturation s | Some d \<Rightarrow> v)
   \<and> state_saturation (snd (setSaturation_resume old (Inl e) t)) = old
   \<and> updates (snd (setSaturation_resume old (Inl e) t)) = updates t
   \<and> lightCharacteristics (snd (setSaturation_resume old (Inl e) t)) = lightCharacteristics t
   \<and> nightModeSwitchOn (snd (setSaturation_resume old (Inl e) t)) = nightModeSwitchOn t
   \<and> fst (setSaturation_resume old r t) = Inr ()
   \<and> state_saturation (snd (setSaturation_resume old (Inr ()) t)) = state_saturation t"
  by (simp add: setSaturation_start_def setSaturation_resume_def setter_defs
      split: option.splits sum.splits)

lemma setHue_revert_halves:
  "fst (setHue_revert_start v s) =
     (case connection s of None \<Rightarrow> None | Some d \<Rightarrow> Some (state_hue s))
   \<and> state_hue (snd (setHue_revert_start v s)) =
     (case connection s of None \<Rightarrow> state_hue s | Some d \<Rightarrow> v)
   \<and> state_hue (snd (setHue_revert_resume old (Inl e) t)) = old
   \<and> updates (snd (setHue_revert_resume old r t)) = updates t
   \<and> shadow.more (snd (setHue_revert_resume old r t)) = shadow.more t
   \<and> fst (setHue_revert_resume old r t) = Inr ()
   \<and> state_hue (snd (setHue_revert_resume old (Inr ()) t)) = state_hue t"
  by (simp add: setHue_revert_start_def setHue_revert_resume_def setter_defs
      split: option.splits sum.splits)

lemma setSaturation_revert_halves:
  "fst (setSaturation_revert_start v s) =
     (case connection s of None \<Rightarrow> None | Some d \<Rightarrow> Some (state_saturation s))
   \<and> state_saturation (snd (setSaturation_revert_start v s)) =
     (case connection s of None \<Rightarrow> state_saturation s | Some d \<Rightarrow> v)
   \<and> state_saturation (snd (setSaturation_revert_resume old (Inl e) t)) = old
   \<and> updates (snd (setSaturation_revert_resume old r t)) = updates t
   \<and> shadow.more (snd (setSaturation_revert_resume old r t)) = shadow.more t
   \<and> fst (setSaturation_revert_resume old r t) = Inr ()
   \<and> state_saturation (snd (setSaturation_revert_resume old (Inr ()) t)) = state_saturation t"
  by (simp add: setSaturation_revert_start_def setSaturation_revert_resume_def setter_defs
      split: option.splits sum.splits)

lemma whole_set_shadow:
  "state_hue (snd (setHue v (Inl e) s)) = state_hue s
   \<and> updates (snd (setHue v (Inl e) s)) = updates s
   \<and> lightCharacteristics (snd (setHue v (Inl e) s)) = lightCharacteristics s
   \<and> nightModeSwitchOn (snd (setHue v (Inl e) s)) = nightModeSwitchOn s
   \<and> fst (setHue v (Inl e) s) = Inr ()
   \<and> state_hue (snd (setHue v (Inr ()) s)) = (case connection s of None \<Rightarrow> state_hue s | Some d \<Rightarrow> v)
   \<and> state_saturation (snd (setSaturation v (Inl e) s)) = state_saturation s
   \<and> updates (snd (setSaturation v (Inl e) s)) = updates s
   \<and> lightCharacteristics (snd (setSaturation v (Inl e) s)) = lightCharacteristics s
   \<and> nightModeSwitchOn (snd (setSaturation v (Inl e) s)) = nightModeSwitchOn s
   \<and> fst (setSaturation v (Inl e) s) = Inr ()
   \<and> state_saturation (snd (setSaturation v (Inr ()) s)) =
       (case connection s of None \<Rightarrow> state_saturation s | Some d \<Rightarrow> v)"
proof -
  have h: "state_hue (snd (setHue v (Inl e) s)) = state_hue s"
    "state_hue (snd (setHue v (Inr ()) s)) = (case connection s of None \<Rightarrow> state_hue s | Some d \<Rightarrow> v)"
    by (simp_all add: setHue_state_hue split: option.splits)
  have sa: "state_saturation (snd (setSaturation v (Inl e) s)) = state_saturation s"
    "state_saturation (snd (setSaturation v (Inr ()) s)) =
       (case connection s of None \<Rightarrow> state_saturation s | Some d \<Rightarrow> v)"
    by (simp_all add: setSaturation_state_saturation split: option.splits)
  show ?thesis
    by (simp only: h sa setHue_fst setSaturation_fst setHue_failed_platform
          setSaturation_failed_platform simp_thms)
qed

lemma whole_set_revert_shadow:
  "state_hue (snd (setHue_revert v (Inl e) s1)) = state_hue s1
   \<and> updates (snd (setHue_revert v (Inl e) s1)) = updates s1
   \<and> shadow.more (snd (setHue_revert v (Inl e) s1)) = shadow.more s1
   \<and> fst (setHue_revert v (Inl e) s1) = Inr ()
   \<and> state_hue (snd (setHue_revert v (Inr ()) s1)) =
       (case connection s1 of None \<Rightarrow> state_hue s1 | Some d \<Rightarrow> v)
   \<and> state_saturation (snd (setSaturation_revert v (Inl e) s1)) = state_saturation s1
   \<and> updates (snd (setSaturation_revert v (Inl e) s1)) = updates s1
   \<and> shadow.more (snd (setSaturation_revert v (Inl e) s1)) = shadow.more s1
   \<and> fst (setSaturation_revert v (Inl e) s1) = Inr ()
   \<and> state_saturation (snd (setSaturation_revert v (Inr ()) s1)) =
       (case connection s1 of None \<Rightarrow> state_saturation s1 | Some d \<Rightarrow> v)"
proof -
  have h1: "state_hue (snd (setHue_revert v (Inl e) s1)) = state_hue s1"
    "state_hue (snd (setHue_revert v (Inr ()) s1)) =
       (case connection s1 of None \<Rightarrow> state_hue s1 | Some d \<Rightarrow> v)"
    by (simp_all add: setHue_revert_state_hue split: option.splits)
  have sa1: "state_saturation (snd (setSaturation_revert v (Inl e) s1)) = state_saturation s1"
    "state_saturation (snd (setSaturation_revert v (Inr ()) s1)) =
       (case connection s1 of None \<Rightarrow> state_saturation s1 | Some d \<Rightarrow> v)"
    by (simp_all add: setSaturation_revert_state_saturation split: option.splits)
  show ?thesis
    by (simp only: h1 sa1 setHue_revert_platform setSaturation_revert_platform simp_thms)
qed

text \<open>
  Claim C2, as stated: when the colour command succeeded, the shadow value equals the
  value that was just set. A set is suspended at its \<open>await\<close>, and another set may start
  and end meanwhile. \<open>setHue(120)\<close> starts from shadow hue 0 and waits; \<open>setHue(200)\<close>
  starts (its \<open>oldHue\<close> is 120) and waits; the first command is rejected, which restores
  0; the second command succeeds, and its call returns with shadow hue 0, not 200.
\<close>

theorem overlapped_setHue_loses_value:
  "fst (setHue_start 120
         (connection_opened (Device (\<lambda>tags. True)) (\<lambda>c. CNull)
            (Light False (CBool True) (CBool False)))) = Some 0
   \<and> fst (setHue_start 200
         (snd (setHue_start 120
            (connection_opened (Device (\<lambda>tags. True)) (\<lambda>c. CNull)
               (Light False (CBool True) (CBool False)))))) = Some 120
   \<and> state_hue
       (snd (setHue_resume 120 (Inr ())
         (snd (setHue_resume 0 (Inl (DeviceError ''timeout''))
           (snd (setHue_start 200
             (snd (setHue_start 120
               (connection_opened (Device (\<lambda>tags. True)) (\<lambda>c. CNull)
                  (Light False (CBool True) (CBool False)))))))))))
     = 0"
  by (simp add: setHue_start_def setHue_resume_def setter_defs connection_opened_def Light_def)

text \<open>
  Claim C2, amended. In the revisions that restore the shadow value
  (\<open>src/platformAccessory.ts\<close>, the first event-driven revision and the moonlight
  revision): the value a set remembers is the shadow value before the call; when its
  colour command is rejected, then in whatever state the call resumes the shadow hue
  (resp. saturation) after the call is that remembered value, no characteristic has been
  updated and the setter returns normally; when the command succeeds the call writes
  nothing to the shadow value on resumption, so the shadow value is the value just set
  whenever no other operation changed it while the command was pending, in particular
  when the call runs with no other operation in between. (With no connection yet the
  member access fails like a rejected command, before any suspension.)
\<close>

theorem set_outcome_and_shadow:
  "(fst (setHue_start v s) = (case connection s of None \<Rightarrow> None | Some d \<Rightarrow> Some (state_hue s))
   \<and> state_hue (snd (setHue_start v s)) = (case connection s of None \<Rightarrow> state_hue s | Some d \<Rightarrow> v)
   \<and> state_hue (snd (setHue_resume old (Inl e) t)) = old
   \<and> updates (snd (setHue_resume old (Inl e) t)) = updates t
   \<and> lightCharacteristics (snd (setHue_resume old (Inl e) t)) = lightCharacteristics t
   \<and> nightModeSwitchOn (snd (setHue_resume old (Inl e) t)) = nightModeSwitchOn t
   \<and> fst (setHue_resume old r t) = Inr ()
   \<and> state_hue (snd (setHue_resume old (Inr ()) t)) = state_hue t)
 \<and> (fst (setSaturation_start v s) =
     (case connection s of None \<Rightarrow> None | Some d \<Rightarrow> Some (state_saturation s))
   \<and> state_saturation (snd (setSaturation_start v s)) =
     (case connection s of None \<Rightarrow> state_saturation s | Some d \<Rightarrow> v)
   \<and> state_saturation (snd (setSaturation_resume old (Inl e) t)) = old
   \<and> updates (snd (setSaturation_resume old (Inl e) t)) = updates t
   \<and> lightCharacteristics (snd (setSaturation_resume old (Inl e) t)) = lightCharacteristics t
   \<and> nightModeSwitchOn (snd (setSaturation_resume old (Inl e) t)) = nightModeSwitchOn t
   \<and> fst (setSaturation_resume old r t) = Inr ()
   \<and> state_saturation (snd (setSaturation_resume old (Inr ()) t)) = state_saturation t)
 \<and> (fst (setHue_revert_start v s1) =
     (case connection s1 of None \<Rightarrow> None | Some d \<Rightarrow> Some (state_hue s1))
   \<and> state_hue (snd (setHue_revert_start v s1)) =
     (case connection s1 of None \<Rightarrow> state_hue s1 | Some d \<Rightarrow> v)
   \<and> state_hue (snd (setHue_revert_resume old (Inl e) t1)) = old
   \<and> updates (snd (setHue_revert_resume old r t1)) = updates t1
   \<and> shadow.more (snd (setHue_revert_resume old r t1)) = shadow.more t1
   \<and> fst (setHue_revert_resume old r t1) = Inr ()
   \<and> state_hue (snd (setHue_revert_resume old (Inr ()) t1)) = state_hue t1)
 \<and> (fst (setSaturation_revert_start v s1) =
     (case connection s1 of None \<Rightarrow> None | Some d \<Rightarrow> Some (state_saturation s1))
   \<and> state_saturation (snd (setSaturation_revert_start v s1)) =
     (case connection s1 of None \<Rightarrow> state_saturation s1 | Some d \<Rightarrow> v)
   \<and> state_saturation (snd (setSaturation_revert_resume old (Inl e) t1)) = old
   \<and> updates (snd (setSaturation_revert_resume old r t1)) = updates t1
   \<and> shadow.more (snd (setSaturation_revert_resume old r t1)) = shadow.more t1
   \<and> fst (setSaturation_revert_resume old r t1) = Inr ()
   \<and> state_saturation (snd (setSaturation_revert_resume old (Inr ()) t1)) = state_saturation t1)
 \<and> (state_hue (snd (setHue v (Inl e) s)) = state_hue s
   \<and> updates (snd (setHue v (Inl e) s)) = updates s
   \<and> lightCharacteristics (snd (setHue v (Inl e) s)) = lightCharacteristics s
   \<and> nightModeSwitchOn (snd (setHue v (Inl e) s)) = nightModeSwitchOn s
   \<and> fst (setHue v (Inl e) s) = Inr ()
   \<and> state_hue (snd (setHue v (Inr ()) s)) = (case connection s of None \<Rightarrow> state_hue s | Some d \<Rightarrow> v)
   \<and> state_saturation (snd (setSaturation v (Inl e) s)) = state_saturation s
   \<and> updates (snd (setSaturation v (Inl e) s)) = updates s
   \<and> lightCharacteristics (snd (setSaturation v (Inl e) s)) = lightCharacteristics s
   \<and> nightModeSwitchOn (snd (setSaturation v (Inl e) s)) = nightModeSwitchOn s
   \<and> fst (setSaturation v (Inl e) s) = Inr ()
   \<and> state_saturation (snd (setSaturation v (Inr ()) s)) =
       (case connection s of None \<Rightarrow> state_saturation s | Some d \<Rightarrow> v))
 \<and> (state_hue (snd (setHue_revert v (Inl e) s1)) = state_hue s1
   \<and> updates (snd (setHue_revert v (Inl e) s1)) = updates s1
   \<and> shadow.more (snd (setHue_revert v (Inl e) s1)) = shadow.more s1
   \<and> fst (setHue_revert v (Inl e) s1) = Inr ()
   \<and> state_hue (snd (setHue_revert v (Inr ()) s1)) =
       (case connection s1 of None \<Rightarrow> state_hue s1 | Some d \<Rightarrow> v)
   \<and> state_saturation (snd (setSaturation_revert v (Inl e) s1)) = state_saturation s1
   \<and> updates (snd (setSaturation_revert v (Inl e) s1)) = updates s1
   \<and> shadow.more (snd (setSaturation_revert v (Inl e) s1)) = shadow.more s1
   \<and> fst (setSaturation_revert v (Inl e) s1) = Inr ()
   \<and> state_saturation (snd (setSaturation_revert v (Inr ()) s1)) =
       (case connection s1 of None \<Rightarrow> state_saturation s1 | Some d \<Rightarrow> v))"
  by (rule conjI [OF setHue_halves conjI [OF setSaturation_halves conjI [OF setHue_revert_halves
        conjI [OF setSaturation_revert_halves conjI [OF whole_set_shadow
          whole_set_revert_shadow]]]]])

theorem set_outcome_and_shadow_witness:
  "fst (setHue_start 200 (snd (setHue 120 (Inr ())
        (connection_opened (Device (\<lambda>tags. True)) (\<lambda>c. CNull)
           (Light False (CBool True) (CBool False)))))) = Some 120
   \<and> state_hue (snd (setHue_resume 120 (Inl (DeviceError ''timeout''))
        (snd (setHue_start 200 (snd (setHue 120 (Inr ())
          (connection_opened (Device (\<lambda>tags. True)) (\<lambda>c. CNull)
             (Light False (CBool True) (CBool False)))))))))
     = 120"
proof -
  let ?s = "connection_opened (Device (\<lambda>tags. True)) (\<lambda>c. CNull) (Light False (CBool True) (CBool False))"
  let ?e = "DeviceError ''timeout''"
  let ?u = "\<lparr>connection = None, debugLogging = False, sent = [], logged = [],
          state_hue = 0, state_saturation = 0, updates = [], listeners = []\<rparr>"
  have c: "connection ?s = Some (Device (\<lambda>tags. True))"
    by (simp add: connection_opened_def Light_def log_info_def Let_def)
  have a: "state_hue (snd (setHue 120 (Inr ()) ?s)) = 120"
    using set_outcome_and_shadow [of 120 ?s 0 ?e ?s "Inr ()" ?u ?u]
    by (simp add: c)
  have c2: "connection (snd (setHue 120 (Inr ()) ?s)) = Some (Device (\<lambda>tags. True))"
    by (simp add: setHue_connection c)
  show ?thesis
    using set_outcome_and_shadow
      [of 200 "snd (setHue 120 (Inr ()) ?s)" 120 ?e
          "snd (setHue_start 200 (snd (setHue 120 (Inr ()) ?s)))" "Inr ()" ?u ?u]
    by (simp add: a c2)
qed

text \<open>
  The revision that queries the device on every read does not restore: after a rejected
  command its shadow hue is the value that was not applied.
\<close>

lemma setHue_pull_keeps_failed_value:
  "state_Hue (snd (setHue_pull v r s)) = v"
  by (simp add: setHue_pull_def setter_defs split: option.splits sum.splits)

section \<open>Colour flow\<close>

lemma colors_packed:
  "colors = [16720896, 15211805, 15251229, 14936093, 1960000, 1957352, 2825704, 14483699]"
  by (simp add: colors_def)

lemma tuples_joined:
  "join '', '' tuples =
     ''2250,1,16720896,100, 2250,1,15211805,100, 2250,1,15251229,100, 2250,1,14936093,100, 2250,1,1960000,100, 2250,1,1957352,100, 2250,1,2825704,100, 2250,1,14483699,100''"
  by (simp add: tuples_def colors_packed Number_toString_def show_nat.simps digit_def)

lemma startColorFlow_fst: "fst (startColorFlow r1 r2 s) = Inr ()"
  by (simp add: startColorFlow_def request_def log_error_def
      split: option.splits sum.splits)

lemma startColorFlow_sent:
  "sent (snd (startColorFlow r1 r2 s)) =
     (case connection s of
        None \<Rightarrow> sent s
      | Some d \<Rightarrow>
          (case r1 of
             Inl e \<Rightarrow> sent s @ [LoadProperties [''flowing'']]
           | Inr p \<Rightarrow>
               sent s @
               [LoadProperties [''flowing''],
                if flowing p = CStr ''1'' then Call ''stop_cf'' None
                else Call ''set_scene''
                       (Some [AStr ''cf'', ANum 0, ANum 0, AStr (join '', '' tuples)])]))"
  by (simp add: startColorFlow_def request_def log_error_def
      split: option.splits sum.splits)

text \<open>
  Claim C9. \<open>startColorFlow\<close> first reads the device property \<open>flowing\<close>. When the device
  reports \<open>flowing === '1'\<close> it issues the single command \<open>stop_cf\<close> and nothing else;
  for every other report it issues one \<open>set_scene\<close> command \<open>['cf', 0, 0, tuples]\<close> whose
  last argument is the eight tuples \<open>2250,1,<packed RGB>,100\<close> of the fixed colour
  sequence, joined by \<open>', '\<close>. The call returns normally whatever the device answers.
\<close>

theorem startColorFlow_toggle:
  "sent (snd (startColorFlow (Inr p) r2 s)) =
     (case connection s of
        None \<Rightarrow> sent s
      | Some d \<Rightarrow>
          sent s @
          [LoadProperties [''flowing''],
           if flowing p = CStr ''1'' then Call ''stop_cf'' None
           else Call ''set_scene''
                  (Some [AStr ''cf'', ANum 0, ANum 0,
                     AStr ''2250,1,16720896,100, 2250,1,15211805,100, 2250,1,15251229,100, 2250,1,14936093,100, 2250,1,1960000,100, 2250,1,1957352,100, 2250,1,2825704,100, 2250,1,14483699,100''])])
   \<and> colors =
       [255 * 65536 + 36 * 256 + 0, 232 * 65536 + 29 * 256 + 29, 232 * 65536 + 183 * 256 + 29,
        227 * 65536 + 232 * 256 + 29, 29 * 65536 + 232 * 256 + 64, 29 * 65536 + 221 * 256 + 232,
        43 * 65536 + 29 * 256 + 232, 221 * 65536 + 0 * 256 + 243]
   \<and> length tuples = 8
   \<and> fst (startColorFlow r1 r2 s) = Inr ()"
proof -
  have a: "sent (snd (startColorFlow (Inr p) r2 s)) =
     (case connection s of
        None \<Rightarrow> sent s
      | Some d \<Rightarrow>
          sent s @
          [LoadProperties [''flowing''],
           if flowing p = CStr ''1'' then Call ''stop_cf'' None
           else Call ''set_scene''
                  (Some [AStr ''cf'', ANum 0, ANum 0,
                     AStr ''2250,1,16720896,100, 2250,1,15211805,100, 2250,1,15251229,100, 2250,1,14936093,100, 2250,1,1960000,100, 2250,1,1957352,100, 2250,1,2825704,100, 2250,1,14483699,100''])])"
    by (simp only: startColorFlow_sent tuples_joined sum.case)
  have b: "colors =
       [255 * 65536 + 36 * 256 + 0, 232 * 65536 + 29 * 256 + 29, 232 * 65536 + 183 * 256 + 29,
        227 * 65536 + 232 * 256 + 29, 29 * 65536 + 232 * 256 + 64, 29 * 65536 + 221 * 256 + 232,
        43 * 65536 + 29 * 256 + 232, 221 * 65536 + 0 * 256 + 243]"
    by (simp only: colors_def)
  have c: "length tuples = 8"
    by (simp add: tuples_def colors_def)
  show ?thesis
    using a b c startColorFlow_fst [of r1 r2 s] by (intro conjI)
qed

theorem startColorFlow_toggle_witness:
  "sent (snd (startColorFlow (Inr \<lparr>flowing = CStr ''1''\<rparr>) (Inr ())
      (connection_opened (Device (\<lambda>tags. True)) (\<lambda>c. CNull) (Light False (CBool True) (CBool False)))))
   = [LoadProperties [''flowing''], Call ''stop_cf'' None]
   \<and> sent (snd (startColorFlow (Inr \<lparr>flowing = CStr ''0''\<rparr>) (Inr ())
      (connection_opened (Device (\<lambda>tags. True)) (\<lambda>c. CNull) (Light False (CBool True) (CBool False)))))
   = [LoadProperties [''flowing''],
      Call ''set_scene''
        (Some [AStr ''cf'', ANum 0, ANum 0,
           AStr ''2250,1,16720896,100, 2250,1,15211805,100, 2250,1,15251229,100, 2250,1,14936093,100, 2250,1,1960000,100, 2250,1,1957352,100, 2250,1,2825704,100, 2250,1,14483699,100''])]"
proof -
  let ?s = "connection_opened (Device (\<lambda>tags. True)) (\<lambda>c. CNull) (Light False (CBool True) (CBool False))"
  have c: "connection ?s = Some (Device (\<lambda>tags. True))" "sent ?s = []"
    by (simp_all add: connection_opened_def Light_def log_info_def Let_def)
  show ?thesis
    using startColorFlow_toggle [of "\<lparr>flowing = CStr ''1''\<rparr>" "Inr ()" ?s "Inr \<lparr>flowing = CStr ''1''\<rparr>"]
      startColorFlow_toggle [of "\<lparr>flowing = CStr ''0''\<rparr>" "Inr ()" ?s "Inr \<lparr>flowing = CStr ''0''\<rparr>"]
    by (simp add: c)
qed

section \<open>Night mode and the optional brightness characteristic\<close>

lemma updateHueAndSaturation_frame:
  "connection (updateHueAndSaturation c s) = connection s
   \<and> sent (updateHueAndSaturation c s) = sent s
   \<and> logged (updateHueAndSaturation c s) = logged s
   \<and> brightness (lightCharacteristics (updateHueAndSaturation c s)) = brightness (lightCharacteristics s)
   \<and> power (lightCharacteristics (updateHueAndSaturation c s)) = power (lightCharacteristics s)
   \<and> colorTmp (lightCharacteristics (updateHueAndSaturation c s)) = colorTmp (lightCharacteristics s)"
  by (simp add: updateHueAndSaturation_def hue_updateValue_def sat_updateValue_def Let_def
      split: option.splits)

lemma connection_opened_brightness:
  "brightness (lightCharacteristics (connection_opened device svc (Light dbg on nm))) =
     (if matches device [''cap:dimmable'', ''cap:brightness''] then Some (svc Brightness)
      else None)"
  by (simp add: connection_opened_def Light_def log_info_def Let_def)

lemma connection_opened_connection:
  "connection (connection_opened device svc s) = Some device"
  by (simp add: connection_opened_def log_info_def Let_def)

lemma setNightMode_brightness_unset:
  assumes "truthy value" and "connection s = Some d"
    and "brightness (lightCharacteristics s) = None"
  shows "setNightMode value color_rgb (Inr ()) s =
           (Inl TypeError,
            updateHueAndSaturation (color_rgb 255 152 0)
              (s\<lparr>sent := sent s @ [Call ''set_scene'' (Some [AStr ''nightlight'', ANum 10])]\<rparr>))"
  using assms
  by (simp add: setNightMode_def request_def Let_def updateHueAndSaturation_frame)

text \<open>
  No setter and no event handler attaches the brightness characteristic: once unset it
  stays unset.
\<close>

lemma setters_keep_brightness:
  "brightness (lightCharacteristics (snd (setOn x r s))) = brightness (lightCharacteristics s)"
  "brightness (lightCharacteristics (snd (setColorTemperature n r s))) =
     brightness (lightCharacteristics s)"
  "brightness (lightCharacteristics (snd (setHue n r s))) = brightness (lightCharacteristics s)"
  "brightness (lightCharacteristics (snd (setSaturation n r s))) =
     brightness (lightCharacteristics s)"
  "brightness (lightCharacteristics (snd (setBrightness x r s))) =
     brightness (lightCharacteristics s)"
  by (simp_all add: setOn_def setColorTemperature_def setHue_fused setSaturation_fused
        setBrightness_def setter_defs
      split: option.splits sum.splits)

lemma run_listener_keeps_brightness_unset:
  assumes "brightness (lightCharacteristics s) = None"
  shows "brightness (lightCharacteristics (run_listener l e s)) = None"
proof (cases e)
  case (ColorChanged c)
  with assms show ?thesis
    by (cases l)
      (simp_all add: on_colorChanged_temperature_def on_colorChanged_full_def
         updateHueAndSaturation_frame colorTmp_updateValue_def Let_def split: option.splits)
next
  case (BrightnessChanged b)
  with assms show ?thesis
    by (cases l) (simp_all add: on_brightnessChanged_def)
next
  case (PowerChanged p)
  with assms show ?thesis
    by (cases l) (simp_all add: on_powerChanged_def power_updateValue_def)
qed

lemma fold_listeners_keeps_brightness_unset:
  "brightness (lightCharacteristics s) = None \<Longrightarrow>
     brightness (lightCharacteristics (fold (\<lambda>l. run_listener l e) ls s)) = None"
  by (induction ls arbitrary: s) (simp_all add: run_listener_keeps_brightness_unset)

lemma emit_keeps_brightness_unset:
  "brightness (lightCharacteristics s) = None \<Longrightarrow>
     brightness (lightCharacteristics (emit e s)) = None"
  by (simp add: emit_def fold_listeners_keeps_brightness_unset)

text \<open>
  Claim C10. The brightness characteristic is attached only when the device matches
  \<open>cap:dimmable\<close> and \<open>cap:brightness\<close>. For every device that does not, the field is unset
  after the connection is established and no brightness listener is registered. In
  every connected state in which the field is unset, \<open>setNightMode\<close> with a truthy value,
  once its scene command has succeeded, reaches the unguarded access
  \<open>this.lightCharacteristics.brightness!.updateValue(1)\<close> on the unset field: the call
  ends in a \<open>TypeError\<close>, the field stays unset and the power characteristic is not
  updated.
\<close>

theorem setNightMode_unguarded_brightness:
  assumes "truthy value"
  shows "(\<not> matches device [''cap:dimmable'', ''cap:brightness''] \<longrightarrow>
            brightness (lightCharacteristics (connection_opened device svc (Light dbg on nm))) = None
          \<and> OnBrightnessChanged \<notin> set (listeners (connection_opened device svc (Light dbg on nm)))
          \<and> fst (setNightMode value color_rgb (Inr ())
                   (connection_opened device svc (Light dbg on nm))) = Inl TypeError)
       \<and> (connection s = Some d \<and> brightness (lightCharacteristics s) = None \<longrightarrow>
            fst (setNightMode value color_rgb (Inr ()) s) = Inl TypeError
          \<and> brightness (lightCharacteristics (snd (setNightMode value color_rgb (Inr ()) s)))
              = None
          \<and> power (lightCharacteristics (snd (setNightMode value color_rgb (Inr ()) s)))
              = power (lightCharacteristics s)
          \<and> (Brightness, CNum 1) \<notin> set (updates (snd (setNightMode value color_rgb (Inr ()) s)))
              - set (updates s))"
proof (intro conjI impI)
  let ?s = "connection_opened device svc (Light dbg on nm)"
  assume m: "\<not> matches device [''cap:dimmable'', ''cap:brightness'']"
  then show b: "brightness (lightCharacteristics ?s) = None"
    by (simp add: connection_opened_brightness)
  show "OnBrightnessChanged \<notin> set (listeners ?s)"
    using m by (simp add: connection_opened_def Light_def log_info_def Let_def)
  show "fst (setNightMode value color_rgb (Inr ()) ?s) = Inl TypeError"
    using setNightMode_brightness_unset [OF assms connection_opened_connection b] by simp
next
  assume a: "connection s = Some d \<and> brightness (lightCharacteristics s) = None"
  then have eq: "setNightMode value color_rgb (Inr ()) s =
           (Inl TypeError,
            updateHueAndSaturation (color_rgb 255 152 0)
              (s\<lparr>sent := sent s @ [Call ''set_scene'' (Some [AStr ''nightlight'', ANum 10])]\<rparr>))"
    using setNightMode_brightness_unset [OF assms, of s d] by simp
  show "fst (setNightMode value color_rgb (Inr ()) s) = Inl TypeError"
    by (simp add: eq)
  show "brightness (lightCharacteristics (snd (setNightMode value color_rgb (Inr ()) s)))
              = None"
    using a by (simp add: eq updateHueAndSaturation_frame)
  show "power (lightCharacteristics (snd (setNightMode value color_rgb (Inr ()) s)))
              = power (lightCharacteristics s)"
    by (simp add: eq updateHueAndSaturation_frame)
  show "(Brightness, CNum 1) \<notin> set (updates (snd (setNightMode value color_rgb (Inr ()) s)))
              - set (updates s)"
    by (auto simp add: eq updateHueAndSaturation_def hue_updateValue_def sat_updateValue_def
          Let_def split: option.splits if_splits)
qed

theorem setNightMode_unguarded_brightness_witness:
  "truthy (CBool True)
   \<and> \<not> matches (Device (\<lambda>tags. tags = [''cap:colorable'', ''cap:color:full'']))
        [''cap:dimmable'', ''cap:brightness'']
   \<and> brightness (lightCharacteristics
        (connection_opened (Device (\<lambda>tags. tags = [''cap:colorable'', ''cap:color:full'']))
           (\<lambda>c. CNum 0) (Light False (CBool True) (CBool False)))) = None
   \<and> fst (setNightMode (CBool True)
           (\<lambda>r g b. \<lparr>model = ''rgb'', mired_value = 0, hsv_hue = 36, hsv_saturation = 100,
            hsl_hue = 36, hsl_saturation = 100\<rparr>) (Inr ())
           (connection_opened (Device (\<lambda>tags. tags = [''cap:colorable'', ''cap:color:full'']))
              (\<lambda>c. CNum 0) (Light False (CBool True) (CBool False)))) = Inl TypeError
   \<and> connection
        (connection_opened (Device (\<lambda>tags. tags = [''cap:colorable'', ''cap:color:full'']))
           (\<lambda>c. CNum 0) (Light False (CBool True) (CBool False)))
       = Some (Device (\<lambda>tags. tags = [''cap:colorable'', ''cap:color:full'']))
   \<and> power (lightCharacteristics (snd (setNightMode (CBool True)
           (\<lambda>r g b. \<lparr>model = ''rgb'', mired_value = 0, hsv_hue = 36, hsv_saturation = 100,
            hsl_hue = 36, hsl_saturation = 100\<rparr>) (Inr ())
           (connection_opened (Device (\<lambda>tags. tags = [''cap:colorable'', ''cap:color:full'']))
              (\<lambda>c. CNum 0) (Light False (CBool True) (CBool False)))))) = CBool True"
proof -
  let ?d = "Device (\<lambda>tags. tags = [''cap:colorable'', ''cap:color:full''])"
  let ?s = "connection_opened ?d (\<lambda>c. CNum 0) (Light False (CBool True) (CBool False))"
  have t: "truthy (CBool True)" by simp
  have c: "connection ?s = Some ?d" "power (lightCharacteristics ?s) = CBool True"
    by (simp_all add: connection_opened_def Light_def log_info_def Let_def)
  show ?thesis
    using setNightMode_unguarded_brightness
      [OF t, of ?d "\<lambda>c. CNum 0" False "CBool True" "CBool False"
          "(\<lambda>r g b. \<lparr>model = ''rgb'', mired_value = 0, hsv_hue = 36, hsv_saturation = 100,
            hsl_hue = 36, hsl_saturation = 100\<rparr>)" ?s ?d]
    by (simp add: c)
qed

section \<open>Failures of the device client in setters\<close>

text \<open>
  The setters that wrap their device call in \<open>try\<close>/\<open>catch\<close> return normally whatever the
  device client answers, and a rejection is the last line logged.
\<close>

lemma wrapped_setters_return:
  "fst (setOn x r s) = Inr ()"
  "fst (setBrightness x r s) = Inr ()"
  "fst (setColorTemperature n r s) = Inr ()"
  "fst (setOn_plain x r t) = Inr ()"
  "fst (setBrightness_plain x r t) = Inr ()"
  "fst (setColorTemperature_plain n r t) = Inr ()"
  "fst (setHue_pull n r u) = Inr ()"
  "fst (setSaturation_pull n r u) = Inr ()"
  "fst (setMoonLightBrightness x r w) = Inr ()"
  by (simp_all add: setOn_def setBrightness_def setColorTemperature_def setOn_plain_def
        setBrightness_plain_def setColorTemperature_plain_def setHue_pull_def
        setSaturation_pull_def setMoonLightBrightness_def setter_defs
      split: option.splits sum.splits)

lemma wrapped_setters_log:
  assumes "connection s = Some d"
  shows "logged (snd (setOn x (Inl e) s)) =
           logged (debug_info [LStr ''setting power to'', LVal x] s) @ [Error e]"
    and "logged (snd (setBrightness x (Inl e) s)) =
           logged (debug_info [LStr ''setting brightness to'', LVal x] s) @ [Error e]"
    and "logged (snd (setColorTemperature n (Inl e) s)) =
           logged (debug_info [LStr ''setting color temp:'', LStr ''mired ='', LVal (CNum n),
                     LStr ''kelvin ='', LStr (kelvin_of n)] s) @ [Error e]"
    and "logged (snd (setHue n (Inl e) s)) =
           logged (debug_info [LStr ''setting hue to'', LVal (CNum n)] s) @ [Error e]"
    and "logged (snd (setSaturation n (Inl e) s)) =
           logged (debug_info [LStr ''setting saturation to'', LVal (CNum n)] s) @ [Error e]"
  using assms
  by (simp_all add: setOn_def setBrightness_def setColorTemperature_def setHue_fused
        setSaturation_fused setter_defs)

text \<open>
  Claim C4 (every setter logs a failure of the device client and does not propagate
  it). \<open>setNightMode\<close> and \<open>setMoonLight\<close> await their device call outside any
  \<open>try\<close>/\<open>catch\<close>: when the call is rejected, or the connection is not yet established,
  the failure is the outcome of the setter and nothing is logged.
\<close>

theorem setNightMode_setMoonLight_propagate:
  "fst (setNightMode (CBool True) color_rgb (Inl e) s) =
     Inl (case connection s of None \<Rightarrow> TypeError | Some d \<Rightarrow> e)
   \<and> logged (snd (setNightMode (CBool True) color_rgb (Inl e) s)) = logged s
   \<and> fst (setMoonLight x (Inl e) w) =
     Inl (case connection w of None \<Rightarrow> TypeError | Some d \<Rightarrow> e)
   \<and> logged (snd (setMoonLight x (Inl e) w)) = logged w"
  by (simp add: setNightMode_def setMoonLight_def request_def split: option.splits)

section \<open>Device events and redundant updates\<close>

text \<open>
  The handlers of \<open>powerChanged\<close> and \<open>brightnessChanged\<close>, the colour-temperature handler
  of \<open>colorChanged\<close> and the hue half of \<open>updateHueAndSaturation\<close> push a value only when
  it differs from the value the same characteristic holds.
\<close>

lemma on_powerChanged_updates:
  "updates (on_powerChanged p s) =
     (if p = power (lightCharacteristics s) then updates s else updates s @ [(Power, p)])"
  by (simp add: on_powerChanged_def power_updateValue_def)

lemma on_brightnessChanged_updates:
  "updates (on_brightnessChanged b s) =
     (case brightness (lightCharacteristics s) of
        None \<Rightarrow> updates s
      | Some cur \<Rightarrow> if b = cur then updates s else updates s @ [(Brightness, b)])"
  by (simp add: on_brightnessChanged_def brightness_updateValue_def split: option.splits)

lemma updateHueAndSaturation_hue_updates:
  "filter (\<lambda>u. fst u = Hue) (updates (updateHueAndSaturation c s)) =
     filter (\<lambda>u. fst u = Hue) (updates s) @
     (case hue (lightCharacteristics s) of
        None \<Rightarrow> []
      | Some cur \<Rightarrow> if CNum (hsv_hue c) = cur then [] else [(Hue, CNum (hsv_hue c))])"
  by (simp add: updateHueAndSaturation_def hue_updateValue_def sat_updateValue_def Let_def
      split: option.splits)

lemma on_colorChanged_temperature_colorTmp_updates:
  "filter (\<lambda>u. fst u = ColorTmp) (updates (on_colorChanged_temperature c s)) =
     filter (\<lambda>u. fst u = ColorTmp) (updates s) @
     (if model c \<noteq> ''temperature'' \<and> model c \<noteq> ''mired'' then []
      else case colorTmp (lightCharacteristics s) of
             None \<Rightarrow> []
           | Some cur \<Rightarrow>
               if CNum (min (max (mired_value c) 154) 370) = cur then []
               else [(ColorTmp, CNum (min (max (mired_value c) 154) 370))])"
  by (simp add: on_colorChanged_temperature_def updateHueAndSaturation_def hue_updateValue_def
        sat_updateValue_def colorTmp_updateValue_def configs_minTemp_def configs_maxTemp_def
        Let_def
      split: option.splits)

text \<open>
  Claim C6 (every event handler pushes a value only when it differs from the value of
  that same characteristic). The saturation half of \<open>updateHueAndSaturation\<close> compares
  the incoming hue with the saturation characteristic's value. On a device with every
  capability, with hue 30 and saturation 50 cached, the event \<open>colorChanged\<close> for a
  colour of hue 30 and saturation 50 pushes saturation 50 again; for a colour of hue 50
  and saturation 80 it pushes the hue only, and neither the saturation characteristic
  nor the shadow saturation follows.
\<close>

theorem updateHueAndSaturation_compares_hue_with_sat:
  "updates (emit
      (ColorChanged \<lparr>model = ''hsv'', mired_value = 0, hsv_hue = 30, hsv_saturation = 50,
                      hsl_hue = 30, hsl_saturation = 50\<rparr>)
      (connection_opened (Device (\<lambda>tags. True))
         (\<lambda>c. if c = Hue then CNum 30 else if c = Sat then CNum 50 else CNum 100)
         (Light False (CBool True) (CBool False))))
   = [(Sat, CNum 50)]
   \<and> updates (emit
      (ColorChanged \<lparr>model = ''hsv'', mired_value = 0, hsv_hue = 50, hsv_saturation = 80,
                      hsl_hue = 50, hsl_saturation = 80\<rparr>)
      (connection_opened (Device (\<lambda>tags. True))
         (\<lambda>c. if c = Hue then CNum 30 else if c = Sat then CNum 50 else CNum 100)
         (Light False (CBool True) (CBool False))))
   = [(Hue, CNum 50)]
   \<and> sat (lightCharacteristics (emit
      (ColorChanged \<lparr>model = ''hsv'', mired_value = 0, hsv_hue = 50, hsv_saturation = 80,
                      hsl_hue = 50, hsl_saturation = 80\<rparr>)
      (connection_opened (Device (\<lambda>tags. True))
         (\<lambda>c. if c = Hue then CNum 30 else if c = Sat then CNum 50 else CNum 100)
         (Light False (CBool True) (CBool False)))))
   = Some (CNum 50)"
  by (simp add: emit_def on_colorChanged_full_def on_colorChanged_temperature_def
        updateHueAndSaturation_def hue_updateValue_def sat_updateValue_def
        connection_opened_def Light_def log_info_def Let_def)

section \<open>Reads in the revision that queries the device\<close>

lemma getters_fst:
  "fst (getOn r s) =
     (case connection s of
        None \<Rightarrow> Inl (HapStatusError SERVICE_COMMUNICATION_FAILURE)
      | Some d \<Rightarrow>
          (case r of
             Inl e \<Rightarrow> Inl (HapStatusError SERVICE_COMMUNICATION_FAILURE)
           | Inr x \<Rightarrow> Inr x))"
  "fst (getBrightness r s) =
     (case connection s of
        None \<Rightarrow> Inl (HapStatusError SERVICE_COMMUNICATION_FAILURE)
      | Some d \<Rightarrow>
          (case r of
             Inl e \<Rightarrow> Inl (HapStatusError SERVICE_COMMUNICATION_FAILURE)
           | Inr x \<Rightarrow> Inr x))"
  "fst (getColorTemperature rc s) =
     (case connection s of
        None \<Rightarrow> Inl (HapStatusError SERVICE_COMMUNICATION_FAILURE)
      | Some d \<Rightarrow>
          (case rc of
             Inl e \<Rightarrow> Inl (HapStatusError SERVICE_COMMUNICATION_FAILURE)
           | Inr c \<Rightarrow> Inr (CNum (min (max (mired_value c) 140) 500))))"
  "fst (getHue rc s) =
     (case connection s of
        None \<Rightarrow> Inl (HapStatusError SERVICE_COMMUNICATION_FAILURE)
      | Some d \<Rightarrow>
          (case rc of
             Inl e \<Rightarrow> Inl (HapStatusError SERVICE_COMMUNICATION_FAILURE)
           | Inr c \<Rightarrow> Inr (CNum (hsl_hue c))))"
  "fst (getSaturation rc s) =
     (case connection s of
        None \<Rightarrow> Inl (HapStatusError SERVICE_COMMUNICATION_FAILURE)
      | Some d \<Rightarrow>
          (case rc of
             Inl e \<Rightarrow> Inl (HapStatusError SERVICE_COMMUNICATION_FAILURE)
           | Inr c \<Rightarrow> Inr (CNum (hsl_saturation c))))"
  by (simp_all add: getOn_def getBrightness_def getColorTemperature_def getHue_def
        getSaturation_def request_def Let_def
      split: option.splits sum.splits)

text \<open>
  Claim C5, as stated: every getter whose query succeeds returns the freshly queried
  device value. \<open>getColorTemperature\<close> does not: for a device that reports 588 mired
  (1700 K) it returns 500.
\<close>

theorem getColorTemperature_not_device_value:
  "fst (getColorTemperature
          (Inr \<lparr>model = ''temperature'', mired_value = 588, hsv_hue = 0, hsv_saturation = 0,
                hsl_hue = 0, hsl_saturation = 0\<rparr>)
          \<lparr>connection = Some (Device (\<lambda>tags. True)), debugLogging = False, sent = [],
           logged = [], state_Hue = 0, state_Saturation = 0\<rparr>)
   = Inr (CNum 500)
   \<and> mired_value \<lparr>model = ''temperature'', mired_value = 588, hsv_hue = 0, hsv_saturation = 0,
                   hsl_hue = 0, hsl_saturation = 0\<rparr> \<noteq> 500"
  by (simp add: getters_fst)

text \<open>
  Claim C5, amended. In the revision that queries the device, with the connection
  established: when the query succeeds, \<open>getOn\<close> and \<open>getBrightness\<close> return the queried
  value, \<open>getHue\<close> and \<open>getSaturation\<close> the hue and the saturation of the queried
  colour, and \<open>getColorTemperature\<close> the queried mired value clamped to \<open>[140, 500]\<close>
  (the queried value itself when it lies in that interval); when the query fails every
  getter logs the failure and raises \<open>HapStatusError(SERVICE_COMMUNICATION_FAILURE)\<close>
  instead of returning a value.
\<close>

theorem getters_fresh_or_failure:
  assumes "connection s = Some d"
  shows "fst (getOn (Inr x) s) = Inr x
       \<and> fst (getBrightness (Inr x) s) = Inr x
       \<and> fst (getHue (Inr c) s) = Inr (CNum (hsl_hue c))
       \<and> fst (getSaturation (Inr c) s) = Inr (CNum (hsl_saturation c))
       \<and> fst (getColorTemperature (Inr c) s) = Inr (CNum (min (max (mired_value c) 140) 500))
       \<and> (140 \<le> mired_value c \<and> mired_value c \<le> 500 \<longrightarrow>
            fst (getColorTemperature (Inr c) s) = Inr (CNum (mired_value c)))
       \<and> getOn (Inl e) s =
           (Inl (HapStatusError SERVICE_COMMUNICATION_FAILURE),
            s\<lparr>sent := sent s @ [GetPower], logged := logged s @ [Error e]\<rparr>)
       \<and> getBrightness (Inl e) s =
           (Inl (HapStatusError SERVICE_COMMUNICATION_FAILURE),
            s\<lparr>sent := sent s @ [GetBrightness], logged := logged s @ [Error e]\<rparr>)
       \<and> getColorTemperature (Inl e) s =
           (Inl (HapStatusError SERVICE_COMMUNICATION_FAILURE),
            s\<lparr>sent := sent s @ [GetColor], logged := logged s @ [Error e]\<rparr>)
       \<and> getHue (Inl e) s =
           (Inl (HapStatusError SERVICE_COMMUNICATION_FAILURE),
            s\<lparr>sent := sent s @ [GetColor], logged := logged s @ [Error e]\<rparr>)
       \<and> getSaturation (Inl e) s =
           (Inl (HapStatusError SERVICE_COMMUNICATION_FAILURE),
            s\<lparr>sent := sent s @ [GetColor], logged := logged s @ [Error e]\<rparr>)"
proof -
  have ok: "fst (getOn (Inr x) s) = Inr x"
    "fst (getBrightness (Inr x) s) = Inr x"
    "fst (getHue (Inr c) s) = Inr (CNum (hsl_hue c))"
    "fst (getSaturation (Inr c) s) = Inr (CNum (hsl_saturation c))"
    "fst (getColorTemperature (Inr c) s) = Inr (CNum (min (max (mired_value c) 140) 500))"
    using assms by (simp_all add: getters_fst)
  have inside: "140 \<le> mired_value c \<and> mired_value c \<le> 500 \<longrightarrow>
      fst (getColorTemperature (Inr c) s) = Inr (CNum (mired_value c))"
    using ok(5) by simp
  have bad: "getOn (Inl e) s =
           (Inl (HapStatusError SERVICE_COMMUNICATION_FAILURE),
            s\<lparr>sent := sent s @ [GetPower], logged := logged s @ [Error e]\<rparr>)"
    "getBrightness (Inl e) s =
           (Inl (HapStatusError SERVICE_COMMUNICATION_FAILURE),
            s\<lparr>sent := sent s @ [GetBrightness], logged := logged s @ [Error e]\<rparr>)"
    "getColorTemperature (Inl e) s =
           (Inl (HapStatusError SERVICE_COMMUNICATION_FAILURE),
            s\<lparr>sent := sent s @ [GetColor], logged := logged s @ [Error e]\<rparr>)"
    "getHue (Inl e) s =
           (Inl (HapStatusError SERVICE_COMMUNICATION_FAILURE),
            s\<lparr>sent := sent s @ [GetColor], logged := logged s @ [Error e]\<rparr>)"
    "getSaturation (Inl e) s =
           (Inl (HapStatusError SERVICE_COMMUNICATION_FAILURE),
            s\<lparr>sent := sent s @ [GetColor], logged := logged s @ [Error e]\<rparr>)"
    using assms
    by (simp_all add: getOn_def getBrightness_def getColorTemperature_def getHue_def
          getSaturation_def request_def log_error_def)
  show ?thesis
    using ok inside bad by (intro conjI)
qed

theorem getters_fresh_or_failure_witness:
  "fst (getColorTemperature
          (Inr \<lparr>model = ''temperature'', mired_value = 250, hsv_hue = 0, hsv_saturation = 0,
                hsl_hue = 0, hsl_saturation = 0\<rparr>)
          \<lparr>connection = Some (Device (\<lambda>tags. True)), debugLogging = False, sent = [],
           logged = [], state_Hue = 0, state_Saturation = 0\<rparr>)
   = Inr (CNum 250)
   \<and> fst (getOn (Inr (CBool True))
          \<lparr>connection = Some (Device (\<lambda>tags. True)), debugLogging = False, sent = [],
           logged = [], state_Hue = 0, state_Saturation = 0\<rparr>)
   = Inr (CBool True)
   \<and> fst (getOn (Inl (DeviceError ''timeout''))
          \<lparr>connection = Some (Device (\<lambda>tags. True)), debugLogging = False, sent = [],
           logged = [], state_Hue = 0, state_Saturation = 0\<rparr>)
   = Inl (HapStatusError SERVICE_COMMUNICATION_FAILURE)"
  using getters_fresh_or_failure
    [of "\<lparr>connection = Some (Device (\<lambda>tags. True)), debugLogging = False, sent = [],
           logged = [], state_Hue = 0, state_Saturation = 0\<rparr>"
        "Device (\<lambda>tags. True)" "CBool True"
        "\<lparr>model = ''temperature'', mired_value = 250, hsv_hue = 0, hsv_saturation = 0,
          hsl_hue = 0, hsl_saturation = 0\<rparr>"
        "DeviceError ''timeout''"]
  by simp

section \<open>Clamping of the colour temperature\<close>

lemma on_colorChanged_temperature_moon_colorTmp_updates:
  "filter (\<lambda>u. fst u = ColorTmp) (updates (on_colorChanged_temperature_moon c s)) =
     filter (\<lambda>u. fst u = ColorTmp) (updates s) @
     (if model c \<noteq> ''temperature'' \<and> model c \<noteq> ''mired'' then []
      else case colorTmp (lightCharacteristics s) of
             None \<Rightarrow> []
           | Some cur \<Rightarrow> [(ColorTmp, CNum (min (max (mired_value c) 154) 370))])"
  by (simp add: on_colorChanged_temperature_moon_def updateHueAndSaturation_moon_def
        hue_updateValue_def sat_updateValue_def colorTmp_updateValue_def configs_minTemp_def
        configs_maxTemp_def Let_def
      split: option.splits)

lemma on_colorChanged_temperature_colorTmp:
  "colorTmp (lightCharacteristics (on_colorChanged_temperature c s)) =
     (if model c \<noteq> ''temperature'' \<and> model c \<noteq> ''mired'' then colorTmp (lightCharacteristics s)
      else case colorTmp (lightCharacteristics s) of
             None \<Rightarrow> None
           | Some cur \<Rightarrow> Some (CNum (min (max (mired_value c) 154) 370)))"
  by (simp add: on_colorChanged_temperature_def updateHueAndSaturation_frame
        colorTmp_updateValue_def configs_minTemp_def configs_maxTemp_def Let_def
      split: option.splits)

lemma on_colorChanged_temperature_moon_colorTmp:
  "colorTmp (lightCharacteristics (on_colorChanged_temperature_moon c s)) =
     (if model c \<noteq> ''temperature'' \<and> model c \<noteq> ''mired'' then colorTmp (lightCharacteristics s)
      else case colorTmp (lightCharacteristics s) of
             None \<Rightarrow> None
           | Some cur \<Rightarrow> Some (CNum (min (max (mired_value c) 154) 370)))"
  by (simp add: on_colorChanged_temperature_moon_def updateHueAndSaturation_moon_def
        hue_updateValue_def sat_updateValue_def colorTmp_updateValue_def configs_minTemp_def
        configs_maxTemp_def Let_def
      split: option.splits)

text \<open>
  The first event-driven revision pushes the mired value as it comes; the bounds it has
  installed with \<open>setProps\<close> decide what the characteristic stores.
\<close>

lemma connection_opened_event_props:
  "props (connection_opened_event device (Light_event dbg svc)) ColorTmp =
     (if matches device [''cap:colorable'', ''cap:color:temperature'']
      then Some (configs_minTemp, configs_maxTemp) else None)"
  by (simp add: connection_opened_event_def Light_event_def log_info_def Let_def)

lemma validateUserInput_clamps:
  "validateUserInput (Some (configs_minTemp, configs_maxTemp)) (CNum n) =
     CNum (min (max n 154) 370)"
  by (simp add: configs_minTemp_def configs_maxTemp_def min_def max_def)

lemma on_colorChanged_temperature_event_updates:
  "updates (on_colorChanged_temperature_event c s) =
     (if model c \<noteq> ''temperature'' \<and> model c \<noteq> ''mired'' then updates s
      else updates s @ [(ColorTmp, CNum (mired_value c)), (Hue, CNum (hsv_hue c)),
                        (Sat, CNum (hsv_saturation c))])"
  by (simp add: on_colorChanged_temperature_event_def updateHueAndSaturation_event_def
        service_updateValue_def Let_def)

lemma on_colorChanged_temperature_event_service:
  assumes "props s ColorTmp = Some (configs_minTemp, configs_maxTemp)"
  shows "service (on_colorChanged_temperature_event c s) ColorTmp =
     (if model c \<noteq> ''temperature'' \<and> model c \<noteq> ''mired'' then service s ColorTmp
      else CNum (min (max (mired_value c) 154) 370))"
  using assms
  by (simp add: on_colorChanged_temperature_event_def updateHueAndSaturation_event_def
        service_updateValue_def validateUserInput_clamps Let_def
      del: validateUserInput.simps)

lemma on_colorChanged_full_event_service:
  "service (on_colorChanged_full_event c s) ColorTmp = service s ColorTmp
   \<and> props (on_colorChanged_full_event c s) = props s"
  by (simp add: on_colorChanged_full_event_def updateHueAndSaturation_event_def
        service_updateValue_def Let_def)

lemma on_colorChanged_temperature_event_props:
  "props (on_colorChanged_temperature_event c s) = props s"
  by (simp add: on_colorChanged_temperature_event_def updateHueAndSaturation_event_def
        service_updateValue_def Let_def)

lemma emit_event_colorChanged:
  "service (emit_event (ColorChanged c) (connection_opened_event device (Light_event dbg svc)))
     ColorTmp =
     (if matches device [''cap:colorable'', ''cap:color:temperature'']
         \<and> (model c = ''temperature'' \<or> model c = ''mired'')
      then CNum (min (max (mired_value c) 154) 370) else svc ColorTmp)"
proof -
  let ?s = "connection_opened_event device (Light_event dbg svc)"
  have p: "props ?s ColorTmp =
     (if matches device [''cap:colorable'', ''cap:color:temperature'']
      then Some (configs_minTemp, configs_maxTemp) else None)"
    by (rule connection_opened_event_props)
  have sv: "service ?s ColorTmp = svc ColorTmp"
    by (simp add: connection_opened_event_def Light_event_def log_info_def Let_def)
  have ls: "listeners ?s =
      (if matches device [''cap:colorable'', ''cap:color:temperature'']
       then [OnColorChangedTemperature] else []) @
      (if matches device [''cap:colorable'', ''cap:color:full''] then [OnColorChangedFull] else []) @
      (if matches device [''cap:dimmable'', ''cap:brightness''] then [OnBrightnessChanged] else []) @
      [OnPowerChanged]"
    by (simp add: connection_opened_event_def Light_event_def log_info_def Let_def)
  show ?thesis
    using p sv
    by (simp add: emit_event_def ls on_colorChanged_temperature_event_service
          on_colorChanged_full_event_service)
qed

text \<open>
  Claim C8. In the revision that queries the device, \<open>getColorTemperature\<close> returns the
  device-reported mired value \<open>m\<close> clamped to \<open>[140, 500]\<close>, that is
  \<open>min (max m 140) 500\<close>, which lies in \<open>[140, 500]\<close>. In the event-driven revisions the
  mired value of an incoming \<open>colorChanged\<close> event of model \<open>temperature\<close> or \<open>mired\<close> is
  clamped to \<open>[154, 370]\<close>: an attached colour-temperature characteristic holds
  \<open>min (max m 154) 370\<close> afterwards. The moonlight revision and
  \<open>src/platformAccessory.ts\<close> clamp before they push, so the only value pushed is the
  clamped one; the first event-driven revision pushes the value to a characteristic on
  which it has installed the bounds 154 and 370.
\<close>

theorem colorTemperature_clamped:
  "fst (getColorTemperature (Inr c) s0) =
     (case connection s0 of
        None \<Rightarrow> Inl (HapStatusError SERVICE_COMMUNICATION_FAILURE)
      | Some d \<Rightarrow> Inr (CNum (min (max (mired_value c) 140) 500)))
   \<and> 140 \<le> min (max (mired_value c) 140) 500 \<and> min (max (mired_value c) 140) 500 \<le> 500
   \<and> filter (\<lambda>u. fst u = ColorTmp) (updates (on_colorChanged_temperature c s)) =
       filter (\<lambda>u. fst u = ColorTmp) (updates s) @
       (if model c \<noteq> ''temperature'' \<and> model c \<noteq> ''mired'' then []
        else case colorTmp (lightCharacteristics s) of
               None \<Rightarrow> []
             | Some cur \<Rightarrow>
                 if CNum (min (max (mired_value c) 154) 370) = cur then []
                 else [(ColorTmp, CNum (min (max (mired_value c) 154) 370))])
   \<and> colorTmp (lightCharacteristics (on_colorChanged_temperature c s)) =
       (if model c \<noteq> ''temperature'' \<and> model c \<noteq> ''mired'' then colorTmp (lightCharacteristics s)
        else case colorTmp (lightCharacteristics s) of
               None \<Rightarrow> None
             | Some cur \<Rightarrow> Some (CNum (min (max (mired_value c) 154) 370)))
   \<and> filter (\<lambda>u. fst u = ColorTmp) (updates (on_colorChanged_temperature_moon c s1)) =
       filter (\<lambda>u. fst u = ColorTmp) (updates s1) @
       (if model c \<noteq> ''temperature'' \<and> model c \<noteq> ''mired'' then []
        else case colorTmp (lightCharacteristics s1) of
               None \<Rightarrow> []
             | Some cur \<Rightarrow> [(ColorTmp, CNum (min (max (mired_value c) 154) 370))])
   \<and> colorTmp (lightCharacteristics (on_colorChanged_temperature_moon c s1)) =
       (if model c \<noteq> ''temperature'' \<and> model c \<noteq> ''mired'' then colorTmp (lightCharacteristics s1)
        else case colorTmp (lightCharacteristics s1) of
               None \<Rightarrow> None
             | Some cur \<Rightarrow> Some (CNum (min (max (mired_value c) 154) 370)))
   \<and> 154 \<le> min (max (mired_value c) 154) 370 \<and> min (max (mired_value c) 154) 370 \<le> 370
   \<and> (props s2 ColorTmp = Some (configs_minTemp, configs_maxTemp) \<longrightarrow>
        service (on_colorChanged_temperature_event c s2) ColorTmp =
          (if model c \<noteq> ''temperature'' \<and> model c \<noteq> ''mired'' then service s2 ColorTmp
           else CNum (min (max (mired_value c) 154) 370)))
   \<and> props (connection_opened_event device (Light_event dbg svc)) ColorTmp =
        (if matches device [''cap:colorable'', ''cap:color:temperature'']
         then Some (configs_minTemp, configs_maxTemp) else None)
   \<and> service (emit_event (ColorChanged c) (connection_opened_event device (Light_event dbg svc)))
        ColorTmp =
        (if matches device [''cap:colorable'', ''cap:color:temperature'']
            \<and> (model c = ''temperature'' \<or> model c = ''mired'')
         then CNum (min (max (mired_value c) 154) 370) else svc ColorTmp)"
proof -
  have g: "fst (getColorTemperature (Inr c) s0) =
     (case connection s0 of
        None \<Rightarrow> Inl (HapStatusError SERVICE_COMMUNICATION_FAILURE)
      | Some d \<Rightarrow> Inr (CNum (min (max (mired_value c) 140) 500)))"
    by (simp add: getters_fst split: option.splits)
  have r: "140 \<le> min (max (mired_value c) 140) 500" "min (max (mired_value c) 140) 500 \<le> 500"
    "154 \<le> min (max (mired_value c) 154) 370" "min (max (mired_value c) 154) 370 \<le> 370"
    by simp_all
  have ev: "props s2 ColorTmp = Some (configs_minTemp, configs_maxTemp) \<longrightarrow>
        service (on_colorChanged_temperature_event c s2) ColorTmp =
          (if model c \<noteq> ''temperature'' \<and> model c \<noteq> ''mired'' then service s2 ColorTmp
           else CNum (min (max (mired_value c) 154) 370))"
    using on_colorChanged_temperature_event_service [of s2 c] by blast
  show ?thesis
    using g r on_colorChanged_temperature_colorTmp_updates [of c s]
      on_colorChanged_temperature_colorTmp [of c s]
      on_colorChanged_temperature_moon_colorTmp_updates [of c s1]
      on_colorChanged_temperature_moon_colorTmp [of c s1]
      ev connection_opened_event_props [of device dbg svc]
      emit_event_colorChanged [of c device dbg svc]
    by (intro conjI)
qed

theorem colorTemperature_clamped_witness:
  "fst (getColorTemperature
          (Inr \<lparr>model = ''temperature'', mired_value = 588, hsv_hue = 0, hsv_saturation = 0,
                hsl_hue = 0, hsl_saturation = 0\<rparr>)
          \<lparr>connection = Some (Device (\<lambda>tags. True)), debugLogging = False, sent = [],
           logged = [], state_Hue = 0, state_Saturation = 0\<rparr>)
   = Inr (CNum 500)
   \<and> colorTmp (lightCharacteristics (on_colorChanged_temperature
        \<lparr>model = ''temperature'', mired_value = 588, hsv_hue = 0, hsv_saturation = 0,
         hsl_hue = 0, hsl_saturation = 0\<rparr>
        (connection_opened (Device (\<lambda>tags. True)) (\<lambda>c. CNum 200)
           (Light False (CBool True) (CBool False)))))
   = Some (CNum 370)
   \<and> props (connection_opened_event (Device (\<lambda>tags. True)) (Light_event False (\<lambda>c. CNum 200)))
        ColorTmp = Some (configs_minTemp, configs_maxTemp)
   \<and> service (on_colorChanged_temperature_event
        \<lparr>model = ''temperature'', mired_value = 588, hsv_hue = 0, hsv_saturation = 0,
         hsl_hue = 0, hsl_saturation = 0\<rparr>
        (connection_opened_event (Device (\<lambda>tags. True)) (Light_event False (\<lambda>c. CNum 200))))
        ColorTmp
   = CNum 370
   \<and> service (emit_event
        (ColorChanged \<lparr>model = ''temperature'', mired_value = 588, hsv_hue = 0,
                        hsv_saturation = 0, hsl_hue = 0, hsl_saturation = 0\<rparr>)
        (connection_opened_event (Device (\<lambda>tags. True)) (Light_event False (\<lambda>c. CNum 200))))
        ColorTmp
   = CNum 370"
proof -
  let ?s = "connection_opened (Device (\<lambda>tags. True)) (\<lambda>c. CNum 200)
              (Light False (CBool True) (CBool False))"
  let ?c = "\<lparr>model = ''temperature'', mired_value = 588, hsv_hue = 0, hsv_saturation = 0,
            hsl_hue = 0, hsl_saturation = 0\<rparr>"
  have c: "colorTmp (lightCharacteristics ?s) = Some (CNum 200)"
    by (simp add: connection_opened_def Light_def log_info_def Let_def)
  show ?thesis
    using colorTemperature_clamped
      [of ?c
          "\<lparr>connection = Some (Device (\<lambda>tags. True)), debugLogging = False, sent = [],
            logged = [], state_Hue = 0, state_Saturation = 0\<rparr>"
          ?s
          "\<lparr>connection = None, debugLogging = False, sent = [], logged = [],
            state_hue = 0, state_saturation = 0, updates = [], listeners = [],
            lightCharacteristics =
              \<lparr>power = CBool True, colorTmp = None, brightness = None, hue = None, sat = None,
               moonlight = None, moonlightBrightness = None\<rparr>\<rparr>"
          "connection_opened_event (Device (\<lambda>tags. True)) (Light_event False (\<lambda>c. CNum 200))"
          "Device (\<lambda>tags. True)" False "\<lambda>c. CNum 200"]
    by (simp add: c)
qed

section \<open>Night mode\<close>










end
